theory Spec2Isabelle
  imports Main "HOL-Library.AList"
begin

section \<open>Shared types (types/wallet.types.ts)\<close>

text \<open>
  The two enums of the module. The string values of \<open>WalletProvider\<close> are the ones the
  template literals of the error messages print.
\<close>

datatype WalletConnectionStatus = DISCONNECTED | CONNECTING | CONNECTED | ERROR

datatype WalletProvider = KAIKAS | METAMASK | WALLET_CONNECT

fun providerName :: "WalletProvider \<Rightarrow> string" where
  "providerName KAIKAS = ''kaikas''"
| "providerName METAMASK = ''metamask''"
| "providerName WALLET_CONNECT = ''walletconnect''"

record Account =
  address :: string
  balance :: string

record Network =
  chainId :: int
  name :: string
  rpcUrl :: string
  blockExplorerUrl :: "string option"

record WalletState =
  status :: WalletConnectionStatus
  account :: "Account option"
  network :: "Network option"
  provider :: "WalletProvider option"
  error :: "string option"



section \<open>Thrown values\<close>

text \<open>
  A thrown value is an object with a \<open>message\<close> and, for the rejections of an injected
  provider, a numeric \<open>code\<close>. It may be an instance of \<open>Error\<close> or a plain object of
  that shape (\<open>instanceofError\<close>); \<open>new Error(m)\<close> is an instance and has no code. A
  rejection that is no object with a string \<open>message\<close> is outside the model: on
  \<open>null\<close> and \<open>undefined\<close> the read \<open>error.message\<close> itself throws, and on a
  primitive it is \<open>undefined\<close>. An operation that can throw, or an asynchronous one that
  can reject, returns a sum: \<open>Inl\<close> carries the thrown value, \<open>Inr\<close> the result.
\<close>

record js_error =
  message :: string
  code :: "int option"
  instanceofError :: bool

definition new_Error :: "string \<Rightarrow> js_error" where
  "new_Error m = \<lparr>message = m, code = None, instanceofError = True\<rparr>"

text \<open>
  What \<open>EventEmitter.emit('error', er)\<close> throws when nobody listens to \<open>error\<close> and
  \<open>er\<close> is no instance of \<open>Error\<close>: a new \<open>Error\<close> about the unhandled one. The text
  is that of the \<open>events\<close> package for browsers (the emitter of Node prints the inspected
  object instead of its message).
\<close>

definition unhandled_error :: "js_error \<Rightarrow> js_error" where
  "unhandled_error er = new_Error (''Unhandled error. ('' @ message er @ '')'')"

text \<open>
  The events of \<open>WalletEvents\<close>, each with the argument \<open>emit\<close> passes to the subscribers.
\<close>

datatype WalletEvent =
    EvAccountsChanged "string list"
  | EvChainChanged string
  | EvConnect Account
  | EvDisconnect
  | EvError js_error

text \<open>The names of the events (\<open>keyof WalletEvents\<close>), and the name of an event.\<close>

datatype WalletEventName =
    EvnAccountsChanged
  | EvnChainChanged
  | EvnConnect
  | EvnDisconnect
  | EvnError

fun eventName :: "WalletEvent \<Rightarrow> WalletEventName" where
  "eventName (EvAccountsChanged accounts) = EvnAccountsChanged"
| "eventName (EvChainChanged c) = EvnChainChanged"
| "eventName (EvConnect acct) = EvnConnect"
| "eventName EvDisconnect = EvnDisconnect"
| "eventName (EvError e) = EvnError"

section \<open>Message texts\<close>

text \<open>
  The message literals of the source are Korean; they are kept here as their UTF-8 bytes,
  so that concatenation and comparison of messages are those of the program.
\<close>

text \<open>KaiaWalletService.ts line 107, the text after the provider name (" wallet is not installed.").\<close>

definition MSG_NOT_INSTALLED :: string where
  "MSG_NOT_INSTALLED = [CHR '' '', CHR 0xEC, CHR 0xA7, CHR 0x80, CHR 0xEA, CHR 0xB0, CHR 0x91,
     CHR 0xEC, CHR 0x9D, CHR 0xB4, CHR '' '', CHR 0xEC, CHR 0x84, CHR 0xA4, CHR 0xEC, CHR 0xB9,
     CHR 0x98, CHR 0xEB, CHR 0x90, CHR 0x98, CHR 0xEC, CHR 0xA7, CHR 0x80, CHR '' '', CHR 0xEC,
     CHR 0x95, CHR 0x8A, CHR 0xEC, CHR 0x95, CHR 0x98, CHR 0xEC, CHR 0x8A, CHR 0xB5, CHR 0xEB,
     CHR 0x8B, CHR 0x88, CHR 0xEB, CHR 0x8B, CHR 0xA4, CHR ''.'']"

text \<open>KaiaWalletService.ts lines 123 and 220 ("no account found.").\<close>

definition MSG_NO_ACCOUNT :: string where
  "MSG_NO_ACCOUNT = [CHR 0xEA, CHR 0xB3, CHR 0x84, CHR 0xEC, CHR 0xA0, CHR 0x95, CHR 0xEC,
     CHR 0x9D, CHR 0x84, CHR '' '', CHR 0xEC, CHR 0xB0, CHR 0xBE, CHR 0xEC, CHR 0x9D, CHR 0x84,
     CHR '' '', CHR 0xEC, CHR 0x88, CHR 0x98, CHR '' '', CHR 0xEC, CHR 0x97, CHR 0x86,
     CHR 0xEC, CHR 0x8A, CHR 0xB5, CHR 0xEB, CHR 0x8B, CHR 0x88, CHR 0xEB, CHR 0x8B, CHR 0xA4,
     CHR ''.'']"

text \<open>KaiaWalletService.ts lines 212, 241 and 273 ("the wallet is not connected.").\<close>

definition MSG_NOT_CONNECTED :: string where
  "MSG_NOT_CONNECTED = [CHR 0xEC, CHR 0xA7, CHR 0x80, CHR 0xEA, CHR 0xB0, CHR 0x91, CHR 0xEC,
     CHR 0x9D, CHR 0xB4, CHR '' '', CHR 0xEC, CHR 0x97, CHR 0xB0, CHR 0xEA, CHR 0xB2, CHR 0xB0,
     CHR 0xEB, CHR 0x90, CHR 0x98, CHR 0xEC, CHR 0xA7, CHR 0x80, CHR '' '', CHR 0xEC, CHR 0x95,
     CHR 0x8A, CHR 0xEC, CHR 0x95, CHR 0x98, CHR 0xEC, CHR 0x8A, CHR 0xB5, CHR 0xEB, CHR 0x8B,
     CHR 0x88, CHR 0xEB, CHR 0x8B, CHR 0xA4, CHR ''.'']"

text \<open>KaiaWalletService.ts line 232, the text before the wrapped message ("balance query failed: ").\<close>

definition MSG_BALANCE_FAILED :: string where
  "MSG_BALANCE_FAILED = [CHR 0xEC, CHR 0x9E, CHR 0x94, CHR 0xEC, CHR 0x95, CHR 0xA1, CHR '' '',
     CHR 0xEC, CHR 0xA1, CHR 0xB0, CHR 0xED, CHR 0x9A, CHR 0x8C, CHR '' '', CHR 0xEC, CHR 0x8B,
     CHR 0xA4, CHR 0xED, CHR 0x8C, CHR 0xA8, CHR '':'', CHR '' '']"



text \<open>KaiaWalletService.ts line 292, the text before the chain id ("unsupported network: ").\<close>

definition MSG_UNSUPPORTED_NETWORK :: string where
  "MSG_UNSUPPORTED_NETWORK = [CHR 0xEC, CHR 0xA7, CHR 0x80, CHR 0xEC, CHR 0x9B, CHR 0x90,
     CHR 0xED, CHR 0x95, CHR 0x98, CHR 0xEC, CHR 0xA7, CHR 0x80, CHR '' '', CHR 0xEC, CHR 0x95,
     CHR 0x8A, CHR 0xEB, CHR 0x8A, CHR 0x94, CHR '' '', CHR 0xEB, CHR 0x84, CHR 0xA4, CHR 0xED,
     CHR 0x8A, CHR 0xB8, CHR 0xEC, CHR 0x9B, CHR 0x8C, CHR 0xED, CHR 0x81, CHR 0xAC, CHR 0xEC,
     CHR 0x9E, CHR 0x85, CHR 0xEB, CHR 0x8B, CHR 0x88, CHR 0xEB, CHR 0x8B, CHR 0xA4, CHR '':'',
     CHR '' '']"

text \<open>KaiaWalletService.ts line 349 ("unsupported wallet provider: ").\<close>

definition MSG_UNSUPPORTED_WALLET_PROVIDER :: string where
  "MSG_UNSUPPORTED_WALLET_PROVIDER = [CHR 0xEC, CHR 0xA7, CHR 0x80, CHR 0xEC, CHR 0x9B,
     CHR 0x90, CHR 0xED, CHR 0x95, CHR 0x98, CHR 0xEC, CHR 0xA7, CHR 0x80, CHR '' '', CHR 0xEC,
     CHR 0x95, CHR 0x8A, CHR 0xEB, CHR 0x8A, CHR 0x94, CHR '' '', CHR 0xEC, CHR 0xA7, CHR 0x80,
     CHR 0xEA, CHR 0xB0, CHR 0x91, CHR '' '', CHR 0xEC, CHR 0xA0, CHR 0x9C, CHR 0xEA, CHR 0xB3,
     CHR 0xB5, CHR 0xEC, CHR 0x9E, CHR 0x90, CHR '':'', CHR '' '']"

text \<open>WalletAdapter.ts line 51 ("unsupported wallet: ").\<close>

definition MSG_UNSUPPORTED_WALLET :: string where
  "MSG_UNSUPPORTED_WALLET = [CHR 0xEC, CHR 0xA7, CHR 0x80, CHR 0xEC, CHR 0x9B, CHR 0x90,
     CHR 0xED, CHR 0x95, CHR 0x98, CHR 0xEC, CHR 0xA7, CHR 0x80, CHR '' '', CHR 0xEC, CHR 0x95,
     CHR 0x8A, CHR 0xEB, CHR 0x8A, CHR 0x94, CHR '' '', CHR 0xEC, CHR 0xA7, CHR 0x80, CHR 0xEA,
     CHR 0xB0, CHR 0x91, CHR 0xEC, CHR 0x9E, CHR 0x85, CHR 0xEB, CHR 0x8B, CHR 0x88, CHR 0xEB,
     CHR 0x8B, CHR 0xA4, CHR '':'', CHR '' '']"

text \<open>WalletAdapter.ts line 55, the text after the provider name (" wallet cannot be used.").\<close>

definition MSG_WALLET_UNAVAILABLE :: string where
  "MSG_WALLET_UNAVAILABLE = [CHR '' '', CHR 0xEC, CHR 0xA7, CHR 0x80, CHR 0xEA, CHR 0xB0,
     CHR 0x91, CHR 0xEC, CHR 0x9D, CHR 0x84, CHR '' '', CHR 0xEC, CHR 0x82, CHR 0xAC, CHR 0xEC,
     CHR 0x9A, CHR 0xA9, CHR 0xED, CHR 0x95, CHR 0xA0, CHR '' '', CHR 0xEC, CHR 0x88, CHR 0x98,
     CHR '' '', CHR 0xEC, CHR 0x97, CHR 0x86, CHR 0xEC, CHR 0x8A, CHR 0xB5, CHR 0xEB, CHR 0x8B,
     CHR 0x88, CHR 0xEB, CHR 0x8B, CHR 0xA4, CHR ''.'']"

section \<open>Printing numbers\<close>

text \<open>
  \<open>Number.prototype.toString(radix)\<close> and \<open>BigInt.prototype.toString()\<close> on integers:
  digits \<open>0-9a-z\<close>, most significant first, a leading minus sign for a negative number.
  A template literal prints a number as \<open>toString(10)\<close> does. The program uses the
  radixes 10 and 16 only (JavaScript accepts 2 to 36), so every digit is below 36.
\<close>

definition digit_char :: "nat \<Rightarrow> char" where
  "digit_char d = ''0123456789abcdefghijklmnopqrstuvwxyz'' ! d"

function nat_toString :: "nat \<Rightarrow> nat \<Rightarrow> string" where
  "nat_toString radix n =
     (if radix < 2 \<or> n < radix then [digit_char n]
      else nat_toString radix (n div radix) @ [digit_char (n mod radix)])"
  by pat_completeness auto
termination
  by (relation "measure snd") auto

declare nat_toString.simps [simp del]

definition int_toString :: "nat \<Rightarrow> int \<Rightarrow> string" where
  "int_toString radix i =
     (if i < 0 then CHR ''-'' # nat_toString radix (nat (- i)) else nat_toString radix (nat i))"

section \<open>Network registry (config/networks.ts)\<close>

definition KAIA_NETWORKS :: "(string \<times> Network) list" where
  "KAIA_NETWORKS =
     [(''mainnet'',
       \<lparr>chainId = 8217, name = ''Kaia Mainnet'', rpcUrl = ''https://public-en.node.kaia.io'',
        blockExplorerUrl = Some ''https://kaiascan.io''\<rparr>),
      (''testnet'',
       \<lparr>chainId = 1001, name = ''Kaia Testnet Kairos'',
        rpcUrl = ''https://public-en-kairos.node.kaia.io'',
        blockExplorerUrl = Some ''https://kairos.kaiascan.io''\<rparr>)]"

definition getNetworkByChainId :: "int \<Rightarrow> Network option" where
  "getNetworkByChainId c = find (\<lambda>network. chainId network = c) (map snd KAIA_NETWORKS)"

section \<open>The environment of a backend\<close>

text \<open>
  The injected provider (\<open>window.klaytn\<close>, \<open>window.ethereum\<close>) and the chain-query client
  (\<open>Web3Provider\<close> of the SDK) are external. Each is an object whose methods answer with a
  resolved value or a rejection; the model holds the answers as fields. The requests the
  program sends to \<open>provider.request\<close> are the three below, with their parameters.
\<close>

record AddEthereumChainParameter =
  ac_chainId :: string
  ac_chainName :: string
  ac_rpcUrls :: "string list"
  ac_blockExplorerUrls :: "string list option"

datatype rpc_request =
    EthRequestAccounts
  | WalletSwitchEthereumChain string
  | WalletAddEthereumChain AddEthereumChainParameter

text \<open>
  \<open>brandMarker\<close> is \<open>isKaikas\<close> on \<open>window.klaytn\<close> and \<open>isMetaMask\<close> on
  \<open>window.ethereum\<close>. The program never reads the value a request resolves to.
\<close>

record InjectedProvider =
  brandMarker :: bool
  request :: "rpc_request \<Rightarrow> js_error + unit"

record Window =
  klaytn :: "InjectedProvider option"
  ethereum :: "InjectedProvider option"

record TransactionRequest =
  tx_to :: string
  tx_value :: string
  tx_data :: string
  tx_gasLimit :: "string option"
  tx_gasPrice :: "string option"

record TransactionReceipt =
  rc_blockNumber :: "int option"
  rc_gasUsed :: "int option"

record TransactionResponse =
  rs_hash :: string
  rs_wait :: "js_error + TransactionReceipt option"

record Signer =
  sg_sendTransaction :: "TransactionRequest \<Rightarrow> js_error + TransactionResponse"
  sg_signMessage :: "string \<Rightarrow> js_error + string"

text \<open>
  An element of \<open>listAccounts()\<close> is an address string or a signer object with an
  \<open>address\<close>; the list itself may be missing (\<open>!accounts\<close>).
\<close>

datatype account_entry = AccountString string | AccountObject string

record Web3Provider =
  w3_listAccounts :: "js_error + account_entry list option"
  w3_getNetwork :: "js_error + int"
  w3_getBalance :: "string \<Rightarrow> js_error + int"
  w3_getSigner :: "js_error + Signer"

text \<open>
  \<open>window\<close> is \<open>None\<close> where \<open>typeof window === 'undefined'\<close>.
  \<open>new_Web3Provider\<close> is the constructor \<open>new Web3Provider(provider)\<close>.
\<close>

record Env =
  window :: "Window option"
  new_Web3Provider :: "InjectedProvider \<Rightarrow> Web3Provider"

text \<open>
  What the engine throws on reading \<open>window.klaytn\<close> with no \<open>window\<close>, and on calling a
  method of \<open>undefined\<close>. The texts are V8's; no operation depends on them.
\<close>

definition ReferenceError_window :: js_error where
  "ReferenceError_window = new_Error ''window is not defined''"

definition TypeError_undefined :: js_error where
  "TypeError_undefined = new_Error ''Cannot read properties of undefined''"

section \<open>The backend (services/KaiaWalletService.ts)\<close>

text \<open>
  An asynchronous call that a native listener has started and not awaited: the listener
  returns at the first \<open>await\<close>, and the rest of \<open>getAccount()\<close> or \<open>getNetwork()\<close>
  runs later, with its \<open>.then\<close> callback at the end. A task says at which \<open>await\<close> the
  call is suspended and on which handle the awaited method was called:
  \<^item> \<open>Await_getAccount_listAccounts h\<close>: in \<open>getAccount\<close>, at \<open>h.listAccounts()\<close>;
  \<^item> \<open>Await_getBalance_listAccounts address h\<close>: in the \<open>getBalance(address)\<close> that
    \<open>getAccount\<close> calls, the address being empty, at \<open>h.listAccounts()\<close>;
  \<^item> \<open>Await_getBalance_getBalance address target h\<close>: in the same \<open>getBalance\<close>, at
    \<open>h.getBalance(target)\<close>;
  \<^item> \<open>Await_getNetwork h\<close>: in \<open>getNetwork\<close>, at \<open>h.getNetwork()\<close>.
  A call that is over has settled with the value its \<open>.then\<close> callback receives.
\<close>

datatype task =
    Await_getAccount_listAccounts Web3Provider
  | Await_getBalance_listAccounts string Web3Provider
  | Await_getBalance_getBalance string string Web3Provider
  | Await_getNetwork Web3Provider

datatype settled = AccountSettled "Account option" | NetworkSettled "Network option"

text \<open>
  The fields of the class, and what the base class \<open>EventEmitter\<close> and the event loop
  hold for the object. \<open>listeners\<close> are the subscribers registered with \<open>on\<close>, each
  callback named by a number, in the order of subscription; they are callbacks of the
  caller, taken to return normally. \<open>emitted\<close> is the log of the calls of \<open>this.emit\<close>,
  oldest first. \<open>subscribed\<close> says that \<open>setupEventListeners\<close> has registered the three
  native listeners on the injected provider. \<open>pending\<close> are the suspended calls that the
  native listeners have started.
\<close>

typedecl EthersExtWallet

record KaiaWalletService =
  state :: WalletState
  web3Provider :: "Web3Provider option"
  wallet :: "EthersExtWallet option"
  walletProvider :: WalletProvider
  listeners :: "(WalletEventName \<times> nat) list"
  emitted :: "WalletEvent list"
  subscribed :: bool
  pending :: "task list"

text \<open>
  \<open>Partial<WalletState>\<close>: a field that is \<open>None\<close> is absent from the update, and the
  spread \<open>{ ...this.state, ...updates }\<close> keeps the old value there.
\<close>

record Partial_WalletState =
  u_status :: "WalletConnectionStatus option"
  u_account :: "Account option option"
  u_network :: "Network option option"
  u_provider :: "WalletProvider option option"
  u_error :: "string option option"

definition no_updates :: Partial_WalletState where
  "no_updates =
     \<lparr>u_status = None, u_account = None, u_network = None, u_provider = None, u_error = None\<rparr>"

definition spread :: "WalletState \<Rightarrow> Partial_WalletState \<Rightarrow> WalletState" where
  "spread st updates =
     \<lparr>status = (case u_status updates of None \<Rightarrow> status st | Some v \<Rightarrow> v),
      account = (case u_account updates of None \<Rightarrow> account st | Some v \<Rightarrow> v),
      network = (case u_network updates of None \<Rightarrow> network st | Some v \<Rightarrow> v),
      provider = (case u_provider updates of None \<Rightarrow> provider st | Some v \<Rightarrow> v),
      error = (case u_error updates of None \<Rightarrow> error st | Some v \<Rightarrow> v)\<rparr>"

definition getState :: "KaiaWalletService \<Rightarrow> WalletState" where
  "getState s = state s"

definition updateState :: "KaiaWalletService \<Rightarrow> Partial_WalletState \<Rightarrow> KaiaWalletService" where
  "updateState s updates = s\<lparr>state := spread (state s) updates\<rparr>"

text \<open>
  \<open>on\<close> and \<open>off\<close> hand the subscriber to the emitter, which appends it, and removes the
  instance added last.
\<close>

definition on :: "KaiaWalletService \<Rightarrow> WalletEventName \<Rightarrow> nat \<Rightarrow> KaiaWalletService" where
  "on s event listener = s\<lparr>listeners := listeners s @ [(event, listener)]\<rparr>"

definition off :: "KaiaWalletService \<Rightarrow> WalletEventName \<Rightarrow> nat \<Rightarrow> KaiaWalletService" where
  "off s event listener =
     s\<lparr>listeners := rev (remove1 (event, listener) (rev (listeners s)))\<rparr>"

definition listenerCount :: "KaiaWalletService \<Rightarrow> WalletEventName \<Rightarrow> nat" where
  "listenerCount s event = length (filter (\<lambda>(n, l). n = event) (listeners s))"

text \<open>
  \<open>EventEmitter.emit\<close>. With no listener to \<open>error\<close>, an \<open>error\<close> event is thrown
  instead of delivered: the argument itself when it is an instance of \<open>Error\<close>, the
  emitter's own error otherwise. Every other call delivers and returns.
\<close>

definition emit :: "KaiaWalletService \<Rightarrow> WalletEvent \<Rightarrow> (js_error + unit) \<times> KaiaWalletService" where
  "emit s ev =
     (let s' = s\<lparr>emitted := emitted s @ [ev]\<rparr> in
      case ev of
        EvError er \<Rightarrow>
          if listenerCount s EvnError = 0
          then (Inl (if instanceofError er then er else unhandled_error er), s')
          else (Inr (), s')
      | _ \<Rightarrow> (Inr (), s'))"

definition handleError :: "KaiaWalletService \<Rightarrow> js_error \<Rightarrow> (js_error + unit) \<times> KaiaWalletService" where
  "handleError s e =
     emit (updateState s (no_updates\<lparr>u_status := Some ERROR, u_error := Some (Some (message e))\<rparr>))
       (EvError e)"

definition isAvailable :: "Env \<Rightarrow> KaiaWalletService \<Rightarrow> bool" where
  "isAvailable env s =
     (case window env of
        None \<Rightarrow> False
      | Some w \<Rightarrow>
          (case walletProvider s of
             KAIKAS \<Rightarrow> (case klaytn w of None \<Rightarrow> False | Some k \<Rightarrow> brandMarker k)
           | METAMASK \<Rightarrow> (case ethereum w of None \<Rightarrow> False | Some m \<Rightarrow> brandMarker m)
           | WALLET_CONNECT \<Rightarrow> False))"

text \<open>
  \<open>getProvider\<close> returns the global object as it is, \<open>undefined\<close> (\<open>None\<close>) included.
\<close>

definition getProvider :: "Env \<Rightarrow> KaiaWalletService \<Rightarrow> js_error + InjectedProvider option" where
  "getProvider env s =
     (case walletProvider s of
        KAIKAS \<Rightarrow>
          (case window env of None \<Rightarrow> Inl ReferenceError_window | Some w \<Rightarrow> Inr (klaytn w))
      | METAMASK \<Rightarrow>
          (case window env of None \<Rightarrow> Inl ReferenceError_window | Some w \<Rightarrow> Inr (ethereum w))
      | WALLET_CONNECT \<Rightarrow>
          Inl (new_Error (MSG_UNSUPPORTED_WALLET_PROVIDER @ providerName (walletProvider s))))"

text \<open>
  \<open>provider.request(r)\<close> on what \<open>getProvider\<close> returned: the answer, and the requests
  that reached the provider.
\<close>

definition provider_request ::
  "InjectedProvider option \<Rightarrow> rpc_request \<Rightarrow> (js_error + unit) \<times> rpc_request list" where
  "provider_request prov r =
     (case prov of None \<Rightarrow> (Inl TypeError_undefined, []) | Some p \<Rightarrow> (request p r, [r]))"

definition entry_address :: "account_entry \<Rightarrow> string" where
  "entry_address a = (case a of AccountString str \<Rightarrow> str | AccountObject addr \<Rightarrow> addr)"

text \<open>
  The body of the \<open>try\<close> block of \<open>getBalance\<close>, then \<open>getBalance\<close> with its \<open>catch\<close>.
  \<open>!targetAddress\<close> holds for an omitted address and for the empty string.
\<close>

definition getBalance_try :: "Web3Provider \<Rightarrow> string option \<Rightarrow> js_error + string" where
  "getBalance_try h addr =
     (case (case addr of
              Some (c # cs) \<Rightarrow> Inr (c # cs)
            | _ \<Rightarrow>
                (case w3_listAccounts h of
                   Inl e \<Rightarrow> Inl e
                 | Inr None \<Rightarrow> Inl (new_Error MSG_NO_ACCOUNT)
                 | Inr (Some []) \<Rightarrow> Inl (new_Error MSG_NO_ACCOUNT)
                 | Inr (Some (a # _)) \<Rightarrow> Inr (entry_address a))) of
        Inl e \<Rightarrow> Inl e
      | Inr targetAddress \<Rightarrow>
          (case w3_getBalance h targetAddress of
             Inl e \<Rightarrow> Inl e
           | Inr bal \<Rightarrow> Inr (int_toString 10 bal)))"

definition getBalance :: "KaiaWalletService \<Rightarrow> string option \<Rightarrow> js_error + string" where
  "getBalance s addr =
     (case web3Provider s of
        None \<Rightarrow> Inl (new_Error MSG_NOT_CONNECTED)
      | Some h \<Rightarrow>
          (case getBalance_try h addr of
             Inl e \<Rightarrow> Inl (new_Error (MSG_BALANCE_FAILED @ message e))
           | Inr bal \<Rightarrow> Inr bal))"

definition getAccount :: "KaiaWalletService \<Rightarrow> Account option" where
  "getAccount s =
     (case web3Provider s of
        None \<Rightarrow> None
      | Some h \<Rightarrow>
          (case w3_listAccounts h of
             Inl e \<Rightarrow> None
           | Inr None \<Rightarrow> None
           | Inr (Some []) \<Rightarrow> None
           | Inr (Some (a # _)) \<Rightarrow>
               (case getBalance s (Some (entry_address a)) of
                  Inl e \<Rightarrow> None
                | Inr bal \<Rightarrow> Some \<lparr>address = entry_address a, balance = bal\<rparr>)))"

definition getNetwork :: "KaiaWalletService \<Rightarrow> Network option" where
  "getNetwork s =
     (case web3Provider s of
        None \<Rightarrow> None
      | Some h \<Rightarrow>
          (case w3_getNetwork h of Inl e \<Rightarrow> None | Inr c \<Rightarrow> getNetworkByChainId c))"

text \<open>
  \<open>connect\<close>: the body of its \<open>try\<close> block first. The handle is stored before the
  request for the accounts is sent. With \<open>undefined\<close> for a provider the body fails at the
  constructor; \<open>connect\<close> does not get there, since \<open>isAvailable\<close> has just held.
\<close>

definition connect_try ::
  "Env \<Rightarrow> KaiaWalletService \<Rightarrow> (js_error + Account) \<times> KaiaWalletService" where
  "connect_try env s0 =
     (let s1 = updateState s0 (no_updates\<lparr>u_status := Some CONNECTING\<rparr>) in
      case getProvider env s1 of
        Inl e \<Rightarrow> (Inl e, s1)
      | Inr None \<Rightarrow> (Inl TypeError_undefined, s1)
      | Inr (Some p) \<Rightarrow>
          (let h = new_Web3Provider env p;
               s2 = s1\<lparr>web3Provider := Some h\<rparr> in
           case request p EthRequestAccounts of
             Inl e \<Rightarrow> (Inl e, s2)
           | Inr _ \<Rightarrow>
               (case w3_listAccounts h of
                  Inl e \<Rightarrow> (Inl e, s2)
                | Inr None \<Rightarrow> (Inl (new_Error MSG_NO_ACCOUNT), s2)
                | Inr (Some []) \<Rightarrow> (Inl (new_Error MSG_NO_ACCOUNT), s2)
                | Inr (Some (a # _)) \<Rightarrow>
                    (case getBalance s2 (Some (entry_address a)) of
                       Inl e \<Rightarrow> (Inl e, s2)
                     | Inr bal \<Rightarrow>
                         (let acct = \<lparr>address = entry_address a, balance = bal\<rparr>;
                              net = getNetwork s2;
                              s3 = updateState s2
                                     (no_updates\<lparr>u_status := Some CONNECTED,
                                        u_account := Some (Some acct),
                                        u_network := Some net,
                                        u_error := Some None\<rparr>)
                          in case emit s3 (EvConnect acct) of
                               (Inl e, s4) \<Rightarrow> (Inl e, s4)
                             | (Inr _, s4) \<Rightarrow> (Inr acct, s4))))))"

definition connect ::
  "Env \<Rightarrow> KaiaWalletService \<Rightarrow> (js_error + Account) \<times> KaiaWalletService" where
  "connect env s =
     (if \<not> isAvailable env s
      then (Inl (new_Error (providerName (walletProvider s) @ MSG_NOT_INSTALLED)), s)
      else (case connect_try env s of
              (Inr acct, s') \<Rightarrow> (Inr acct, s')
            | (Inl e, s') \<Rightarrow>
                (case handleError s' e of
                   (Inl thrown, s'') \<Rightarrow> (Inl thrown, s'')
                 | (Inr _, s'') \<Rightarrow> (Inl e, s''))))"

definition disconnect :: "KaiaWalletService \<Rightarrow> (js_error + unit) \<times> KaiaWalletService" where
  "disconnect s =
     emit (updateState (s\<lparr>web3Provider := None, wallet := None\<rparr>)
             (no_updates\<lparr>u_status := Some DISCONNECTED,
                u_account := Some None,
                u_network := Some None,
                u_error := Some None\<rparr>))
       EvDisconnect"





text \<open>
  \<open>switchNetwork\<close> returns its outcome and the requests that reached the injected
  provider, in order. The state of the backend is not touched.
\<close>

definition hexChainId :: "int \<Rightarrow> string" where
  "hexChainId c = ''0x'' @ int_toString 16 c"

definition addChainParameter :: "int \<Rightarrow> Network \<Rightarrow> AddEthereumChainParameter" where
  "addChainParameter c net =
     \<lparr>ac_chainId = hexChainId c,
      ac_chainName = name net,
      ac_rpcUrls = [rpcUrl net],
      ac_blockExplorerUrls =
        (case blockExplorerUrl net of Some (ch # url) \<Rightarrow> Some [ch # url] | _ \<Rightarrow> None)\<rparr>"

definition switchNetwork ::
  "Env \<Rightarrow> KaiaWalletService \<Rightarrow> int \<Rightarrow> (js_error + unit) \<times> rpc_request list" where
  "switchNetwork env s c =
     (case getProvider env s of
        Inl e \<Rightarrow> (Inl e, [])
      | Inr prov \<Rightarrow>
          (case getNetworkByChainId c of
             None \<Rightarrow> (Inl (new_Error (MSG_UNSUPPORTED_NETWORK @ int_toString 10 c)), [])
           | Some net \<Rightarrow>
               (case provider_request prov (WalletSwitchEthereumChain (hexChainId c)) of
                  (Inr _, calls) \<Rightarrow> (Inr (), calls)
                | (Inl switchError, calls) \<Rightarrow>
                    if code switchError = Some 4902
                    then (case provider_request prov
                                 (WalletAddEthereumChain (addChainParameter c net)) of
                            (r, calls') \<Rightarrow> (r, calls @ calls'))
                    else (Inl switchError, calls))))"

text \<open>
  \<open>getAccount()\<close> and \<open>getNetwork()\<close> as a native listener runs them, one \<open>await\<close> at a
  time. \<open>start_getAccount\<close> and \<open>start_getNetwork\<close> are the calls up to their first
  \<open>await\<close>; with no handle they settle at once with null. \<open>start_getBalance\<close> is the
  call \<open>this.getBalance(address)\<close> inside \<open>getAccount\<close> up to its first \<open>await\<close>:
  it reads \<open>this.web3Provider\<close> as it is at that moment, and the error it throws with no
  handle ends in the \<open>catch\<close> of \<open>getAccount\<close>, which returns null. \<open>advance\<close>
  resumes a suspended call with the answer of the awaited method, up to the next
  \<open>await\<close> or to the end; the fields it reads are those of the moment of resumption.
\<close>

definition start_getAccount :: "KaiaWalletService \<Rightarrow> task + settled" where
  "start_getAccount s =
     (case web3Provider s of
        None \<Rightarrow> Inr (AccountSettled None)
      | Some h \<Rightarrow> Inl (Await_getAccount_listAccounts h))"

definition start_getNetwork :: "KaiaWalletService \<Rightarrow> task + settled" where
  "start_getNetwork s =
     (case web3Provider s of
        None \<Rightarrow> Inr (NetworkSettled None)
      | Some h \<Rightarrow> Inl (Await_getNetwork h))"

definition start_getBalance :: "KaiaWalletService \<Rightarrow> string \<Rightarrow> task + settled" where
  "start_getBalance s addr =
     (case web3Provider s of
        None \<Rightarrow> Inr (AccountSettled None)
      | Some h \<Rightarrow>
          if addr = [] then Inl (Await_getBalance_listAccounts addr h)
          else Inl (Await_getBalance_getBalance addr addr h))"

fun advance :: "KaiaWalletService \<Rightarrow> task \<Rightarrow> task + settled" where
  "advance s (Await_getAccount_listAccounts h) =
     (case w3_listAccounts h of
        Inl e \<Rightarrow> Inr (AccountSettled None)
      | Inr None \<Rightarrow> Inr (AccountSettled None)
      | Inr (Some []) \<Rightarrow> Inr (AccountSettled None)
      | Inr (Some (a # _)) \<Rightarrow> start_getBalance s (entry_address a))"
| "advance s (Await_getBalance_listAccounts addr h) =
     (case w3_listAccounts h of
        Inl e \<Rightarrow> Inr (AccountSettled None)
      | Inr None \<Rightarrow> Inr (AccountSettled None)
      | Inr (Some []) \<Rightarrow> Inr (AccountSettled None)
      | Inr (Some (a # _)) \<Rightarrow>
          (case web3Provider s of
             None \<Rightarrow> Inr (AccountSettled None)
           | Some h' \<Rightarrow> Inl (Await_getBalance_getBalance addr (entry_address a) h')))"
| "advance s (Await_getBalance_getBalance addr targetAddress h) =
     (case w3_getBalance h targetAddress of
        Inl e \<Rightarrow> Inr (AccountSettled None)
      | Inr bal \<Rightarrow>
          Inr (AccountSettled (Some \<lparr>address = addr, balance = int_toString 10 bal\<rparr>)))"
| "advance s (Await_getNetwork h) =
     (case w3_getNetwork h of
        Inl e \<Rightarrow> Inr (NetworkSettled None)
      | Inr c \<Rightarrow> Inr (NetworkSettled (getNetworkByChainId c)))"

text \<open>
  A suspended call resumed to its end with nothing happening in between; a call passes
  three \<open>await\<close>s at most.
\<close>

definition run_to_end :: "KaiaWalletService \<Rightarrow> task + settled \<Rightarrow> settled" where
  "run_to_end s started =
     (case started of
        Inr r \<Rightarrow> r
      | Inl t1 \<Rightarrow>
          (case advance s t1 of
             Inr r \<Rightarrow> r
           | Inl t2 \<Rightarrow>
               (case advance s t2 of
                  Inr r \<Rightarrow> r
                | Inl t3 \<Rightarrow>
                    (case advance s t3 of Inr r \<Rightarrow> r | Inl t4 \<Rightarrow> AccountSettled None))))"

text \<open>
  The \<open>.then\<close> callbacks of the listeners: an account is stored when it is not null, a
  network always.
\<close>

definition settle :: "KaiaWalletService \<Rightarrow> settled \<Rightarrow> KaiaWalletService" where
  "settle s r =
     (case r of
        AccountSettled None \<Rightarrow> s
      | AccountSettled (Some acct) \<Rightarrow> updateState s (no_updates\<lparr>u_account := Some (Some acct)\<rparr>)
      | NetworkSettled net \<Rightarrow> updateState s (no_updates\<lparr>u_network := Some net\<rparr>))"

text \<open>
  The event loop resumes the suspended call at position \<open>i\<close>: it goes on to its next
  \<open>await\<close>, or it ends and its \<open>.then\<close> callback runs.
\<close>

definition resume :: "nat \<Rightarrow> KaiaWalletService \<Rightarrow> KaiaWalletService" where
  "resume i s =
     (if i < length (pending s)
      then (case advance s (pending s ! i) of
              Inl t \<Rightarrow> s\<lparr>pending := (pending s)[i := t]\<rparr>
            | Inr r \<Rightarrow> settle (s\<lparr>pending := take i (pending s) @ drop (Suc i) (pending s)\<rparr>) r)
      else s)"

text \<open>
  The three listeners \<open>setupEventListeners\<close> registers on the injected provider. A
  listener runs up to the first \<open>await\<close> of the call it starts and leaves the call
  suspended (\<open>launch\<close>); a call that has nothing to await settles in the same step.
\<close>

datatype native_event =
    NativeAccountsChanged "string list"
  | NativeChainChanged string
  | NativeDisconnect

definition launch :: "KaiaWalletService \<Rightarrow> task + settled \<Rightarrow> KaiaWalletService" where
  "launch s started =
     (case started of
        Inl t \<Rightarrow> s\<lparr>pending := pending s @ [t]\<rparr>
      | Inr r \<Rightarrow> settle s r)"

definition on_accountsChanged :: "KaiaWalletService \<Rightarrow> string list \<Rightarrow> KaiaWalletService" where
  "on_accountsChanged s accounts =
     (case emit s (EvAccountsChanged accounts) of
        (Inl e, s1) \<Rightarrow> s1
      | (Inr _, s1) \<Rightarrow>
          if length accounts = 0 then snd (disconnect s1)
          else launch s1 (start_getAccount s1))"

definition on_chainChanged :: "KaiaWalletService \<Rightarrow> string \<Rightarrow> KaiaWalletService" where
  "on_chainChanged s c =
     (case emit s (EvChainChanged c) of
        (Inl e, s1) \<Rightarrow> s1
      | (Inr _, s1) \<Rightarrow> launch s1 (start_getNetwork s1))"

definition on_disconnect :: "KaiaWalletService \<Rightarrow> KaiaWalletService" where
  "on_disconnect s = snd (disconnect s)"

definition setupEventListeners :: "Env \<Rightarrow> KaiaWalletService \<Rightarrow> KaiaWalletService" where
  "setupEventListeners env s =
     (if \<not> isAvailable env s then s
      else (case getProvider env s of
              Inr (Some p) \<Rightarrow> s\<lparr>subscribed := True\<rparr>
            | _ \<Rightarrow> s))"

text \<open>The injected provider fires a native event: the listener runs if it was registered.\<close>

definition provider_emits :: "native_event \<Rightarrow> KaiaWalletService \<Rightarrow> KaiaWalletService" where
  "provider_emits ev s =
     (if \<not> subscribed s then s
      else (case ev of
              NativeAccountsChanged accounts \<Rightarrow> on_accountsChanged s accounts
            | NativeChainChanged c \<Rightarrow> on_chainChanged s c
            | NativeDisconnect \<Rightarrow> on_disconnect s))"

text \<open>The field initialisers and the constructor.\<close>

definition initial_state :: WalletState where
  "initial_state =
     \<lparr>status = DISCONNECTED, account = None, network = None, provider = None, error = None\<rparr>"

definition new_KaiaWalletService :: "Env \<Rightarrow> WalletProvider \<Rightarrow> KaiaWalletService" where
  "new_KaiaWalletService env p =
     setupEventListeners env
       \<lparr>state = initial_state\<lparr>provider := Some p\<rparr>,
        web3Provider = None,
        wallet = None,
        walletProvider = p,
        listeners = [],
        emitted = [],
        subscribed = False,
        pending = []\<rparr>"

text \<open>
  What can happen to one backend. A step is a call of \<open>connect\<close>, \<open>disconnect\<close>, \<open>on\<close>
  or \<open>off\<close> in some environment, a native event (the listener up to its first
  \<open>await\<close>), the resumption of a call that a listener left suspended, or a change of
  what the external chain-query client answers (\<open>step_answers\<close>: the handle is an object
  of the SDK, and its answers are not fixed in time). The other operations
  (\<open>getAccount\<close>, \<open>getNetwork\<close>, \<open>getBalance\<close>, \<open>sendTransaction\<close>, \<open>signMessage\<close>,
  \<open>switchNetwork\<close>) return a value and leave the fields as they are, so they are no
  steps. A call that the caller awaits (\<open>connect\<close> and the queries) is one step; what a
  listener starts and nobody awaits is spread over several.
\<close>

inductive svc_step :: "KaiaWalletService \<Rightarrow> KaiaWalletService \<Rightarrow> bool" where
  step_connect: "svc_step s (snd (connect env s))"
| step_disconnect: "svc_step s (snd (disconnect s))"
| step_on: "svc_step s (on s event listener)"
| step_off: "svc_step s (off s event listener)"
| step_native: "svc_step s (provider_emits ev s)"
| step_resume: "svc_step s (resume i s)"
| step_answers: "web3Provider s = Some h \<Longrightarrow> svc_step s (s\<lparr>web3Provider := Some h'\<rparr>)"

inductive reachable :: "KaiaWalletService \<Rightarrow> bool" where
  reachable_new: "reachable (new_KaiaWalletService env p)"
| reachable_step: "reachable s \<Longrightarrow> svc_step s s' \<Longrightarrow> reachable s'"


section \<open>The registry (adapters/WalletAdapter.ts)\<close>

text \<open>
  \<open>wallets\<close> is a JavaScript \<open>Map\<close>: it keeps the order of insertion, \<open>set\<close> replaces
  the value of a key that is present (\<open>AList.update\<close>) and \<open>get\<close> is \<open>map_of\<close>. A
  reference to a backend (\<open>IWallet\<close>) is the key under which the registry owns the object:
  the registry never removes or replaces a backend, and a call through the reference
  changes the object the registry holds.
\<close>

type_synonym wallet_ref = WalletProvider

record WalletAdapter =
  wallets :: "(WalletProvider \<times> KaiaWalletService) list"
  currentWallet :: "wallet_ref option"

definition initializeWallets :: "Env \<Rightarrow> WalletAdapter \<Rightarrow> WalletAdapter" where
  "initializeWallets env ad =
     (let ad1 = ad\<lparr>wallets := AList.update KAIKAS (new_KaiaWalletService env KAIKAS) (wallets ad)\<rparr>
      in ad1\<lparr>wallets :=
               AList.update METAMASK (new_KaiaWalletService env METAMASK) (wallets ad1)\<rparr>)"

definition new_WalletAdapter :: "Env \<Rightarrow> WalletAdapter" where
  "new_WalletAdapter env = initializeWallets env \<lparr>wallets = [], currentWallet = None\<rparr>"

definition getAvailableWallets :: "Env \<Rightarrow> WalletAdapter \<Rightarrow> WalletProvider list" where
  "getAvailableWallets env ad =
     map fst (filter (\<lambda>(p, wlt). isAvailable env wlt) (wallets ad))"

definition selectWallet ::
  "Env \<Rightarrow> WalletAdapter \<Rightarrow> WalletProvider \<Rightarrow> js_error + (wallet_ref \<times> WalletAdapter)" where
  "selectWallet env ad p =
     (case map_of (wallets ad) p of
        None \<Rightarrow> Inl (new_Error (MSG_UNSUPPORTED_WALLET @ providerName p))
      | Some wlt \<Rightarrow>
          if \<not> isAvailable env wlt
          then Inl (new_Error (providerName p @ MSG_WALLET_UNAVAILABLE))
          else Inr (p, ad\<lparr>currentWallet := Some p\<rparr>))"

definition getCurrentWallet :: "WalletAdapter \<Rightarrow> wallet_ref option" where
  "getCurrentWallet ad = currentWallet ad"

text \<open>The object behind a reference.\<close>

definition deref :: "WalletAdapter \<Rightarrow> wallet_ref \<Rightarrow> KaiaWalletService option" where
  "deref ad r = map_of (wallets ad) r"

text \<open>
  \<open>wallet.connect()\<close> through a reference. A reference comes from \<open>selectWallet\<close>, so the
  object is there; the first branch is for totality only.
\<close>

definition wallet_connect ::
  "Env \<Rightarrow> WalletAdapter \<Rightarrow> wallet_ref \<Rightarrow> (js_error + Account) \<times> WalletAdapter" where
  "wallet_connect env ad r =
     (case deref ad r of
        None \<Rightarrow> (Inl TypeError_undefined, ad)
      | Some wlt \<Rightarrow>
          (case connect env wlt of
             (res, wlt') \<Rightarrow> (res, ad\<lparr>wallets := AList.update r wlt' (wallets ad)\<rparr>)))"

definition priority :: "WalletProvider list" where
  "priority = [KAIKAS, METAMASK, WALLET_CONNECT]"

text \<open>The \<open>for\<close> loop of \<open>autoConnect\<close> over the rest of the priority list.\<close>

fun autoConnect_loop ::
  "Env \<Rightarrow> WalletProvider list \<Rightarrow> WalletProvider list \<Rightarrow> WalletAdapter \<Rightarrow>
   wallet_ref option \<times> WalletAdapter" where
  "autoConnect_loop env availableWallets [] ad = (None, ad)"
| "autoConnect_loop env availableWallets (p # rest) ad =
     (if p \<in> set availableWallets
      then (case selectWallet env ad p of
              Inl e \<Rightarrow> autoConnect_loop env availableWallets rest ad
            | Inr (r, ad1) \<Rightarrow>
                (case wallet_connect env ad1 r of
                   (Inl e, ad2) \<Rightarrow> autoConnect_loop env availableWallets rest ad2
                 | (Inr acct, ad2) \<Rightarrow> (Some r, ad2)))
      else autoConnect_loop env availableWallets rest ad)"

definition autoConnect :: "Env \<Rightarrow> WalletAdapter \<Rightarrow> wallet_ref option \<times> WalletAdapter" where
  "autoConnect env ad =
     (let availableWallets = getAvailableWallets env ad in
      if length availableWallets = 0 then (None, ad)
      else autoConnect_loop env availableWallets priority ad)"

definition disconnectAll :: "WalletAdapter \<Rightarrow> WalletAdapter" where
  "disconnectAll ad =
     ad\<lparr>wallets :=
          map (\<lambda>(p, wlt).
                 (p, if status (getState wlt) = CONNECTED then snd (disconnect wlt) else wlt))
            (wallets ad),
        currentWallet := None\<rparr>"

definition getWalletStates :: "WalletAdapter \<Rightarrow> (WalletProvider \<times> WalletState) list" where
  "getWalletStates ad =
     foldl (\<lambda>states (p, wlt). AList.update p (getState wlt) states) [] (wallets ad)"

text \<open>
  What can happen to a registry: its own operations, and a step of one of its backends
  made through a reference.
\<close>

inductive adapter_step :: "WalletAdapter \<Rightarrow> WalletAdapter \<Rightarrow> bool" where
  step_selectWallet: "selectWallet env ad p = Inr (r, ad') \<Longrightarrow> adapter_step ad ad'"
| step_autoConnect: "adapter_step ad (snd (autoConnect env ad))"
| step_disconnectAll: "adapter_step ad (disconnectAll ad)"
| step_backend:
    "deref ad r = Some wlt \<Longrightarrow> svc_step wlt wlt' \<Longrightarrow>
     adapter_step ad (ad\<lparr>wallets := AList.update r wlt' (wallets ad)\<rparr>)"

inductive reachable_adapter :: "WalletAdapter \<Rightarrow> bool" where
  adapter_new: "reachable_adapter (new_WalletAdapter env)"
| adapter_next: "reachable_adapter ad \<Longrightarrow> adapter_step ad ad' \<Longrightarrow> reachable_adapter ad'"

section \<open>Example environments\<close>

text \<open>
  Concrete providers and environments on which the theorems below are run: a provider
  that grants every request, one that rejects every request as the user declining (code
  4001), one that does not know the chain of a switch request (code 4902), and chain-query
  clients with one account, with no account, and with a failing network query.
\<close>

definition ex_granting :: InjectedProvider where
  "ex_granting = \<lparr>brandMarker = True, request = (\<lambda>r. Inr ())\<rparr>"

definition ex_rejection :: js_error where
  "ex_rejection =
     \<lparr>message = ''User rejected the request.'', code = Some 4001, instanceofError = True\<rparr>"

definition ex_rejecting :: InjectedProvider where
  "ex_rejecting = \<lparr>brandMarker = True, request = (\<lambda>r. Inl ex_rejection)\<rparr>"

text \<open>The same rejection as a plain object, and a provider that rejects with it.\<close>

definition ex_plain_rejection :: js_error where
  "ex_plain_rejection = ex_rejection\<lparr>instanceofError := False\<rparr>"

definition ex_rejecting_plain :: InjectedProvider where
  "ex_rejecting_plain = \<lparr>brandMarker = True, request = (\<lambda>r. Inl ex_plain_rejection)\<rparr>"

definition ex_unknown_chain_error :: js_error where
  "ex_unknown_chain_error =
     \<lparr>message = ''Unrecognized chain ID.'', code = Some 4902, instanceofError = True\<rparr>"

definition ex_unknown_chain :: InjectedProvider where
  "ex_unknown_chain =
     \<lparr>brandMarker = True,
      request =
        (\<lambda>r. case r of
                WalletSwitchEthereumChain c \<Rightarrow> Inl ex_unknown_chain_error
              | _ \<Rightarrow> Inr ())\<rparr>"

definition ex_signer :: Signer where
  "ex_signer =
     \<lparr>sg_sendTransaction =
        (\<lambda>t. Inr \<lparr>rs_hash = ''0xabcdef1234567890'',
                   rs_wait = Inr (Some \<lparr>rc_blockNumber = Some 12345, rc_gasUsed = Some 21000\<rparr>)\<rparr>),
      sg_signMessage = (\<lambda>m. Inr ''0xsignature123'')\<rparr>"

definition ex_web3 :: Web3Provider where
  "ex_web3 =
     \<lparr>w3_listAccounts = Inr (Some [AccountString ''0xABC'']),
      w3_getNetwork = Inr 8217,
      w3_getBalance = (\<lambda>a. Inr 1000000000000000000),
      w3_getSigner = Inr ex_signer\<rparr>"

definition ex_web3_no_accounts :: Web3Provider where
  "ex_web3_no_accounts = ex_web3\<lparr>w3_listAccounts := Inr (Some [])\<rparr>"

definition ex_web3_no_network :: Web3Provider where
  "ex_web3_no_network = ex_web3\<lparr>w3_getNetwork := Inl (new_Error ''network query failed'')\<rparr>"

definition ex_env :: "InjectedProvider option \<Rightarrow> InjectedProvider option \<Rightarrow> Web3Provider \<Rightarrow> Env" where
  "ex_env k m h = \<lparr>window = Some \<lparr>klaytn = k, ethereum = m\<rparr>, new_Web3Provider = (\<lambda>p. h)\<rparr>"

text \<open>Both wallets installed and granting.\<close>

definition ex_env_ok :: Env where
  "ex_env_ok = ex_env (Some ex_granting) (Some ex_granting) ex_web3"

text \<open>Both wallets installed; Kaikas rejects the request for the accounts.\<close>

definition ex_env_kaikas_rejects :: Env where
  "ex_env_kaikas_rejects = ex_env (Some ex_rejecting) (Some ex_granting) ex_web3"

text \<open>Both wallets installed; Kaikas rejects the request with a plain object.\<close>

definition ex_env_kaikas_rejects_plain :: Env where
  "ex_env_kaikas_rejects_plain = ex_env (Some ex_rejecting_plain) (Some ex_granting) ex_web3"

text \<open>No wallet installed.\<close>

definition ex_env_none :: Env where
  "ex_env_none = ex_env None None ex_web3"

text \<open>Kaikas installed and granting, with a chain-query client that lists no account.\<close>

definition ex_env_no_accounts :: Env where
  "ex_env_no_accounts = ex_env (Some ex_granting) None ex_web3_no_accounts"

text \<open>Kaikas installed and granting, with a chain-query client whose network query fails.\<close>

definition ex_env_no_network :: Env where
  "ex_env_no_network = ex_env (Some ex_granting) None ex_web3_no_network"

text \<open>
  A Kaikas backend constructed with both wallets installed; the same after a \<open>connect()\<close>
  that succeeded; and after a second \<open>connect()\<close> that the wallet rejected.
\<close>

definition ex_backend :: KaiaWalletService where
  "ex_backend = new_KaiaWalletService ex_env_ok KAIKAS"

definition ex_connected :: KaiaWalletService where
  "ex_connected = snd (connect ex_env_ok ex_backend)"

definition ex_reconnect_rejected :: KaiaWalletService where
  "ex_reconnect_rejected = snd (connect ex_env_kaikas_rejects ex_connected)"



definition ex_account :: Account where
  "ex_account = \<lparr>address = ''0xABC'', balance = ''1000000000000000000''\<rparr>"

text \<open>
  A registry constructed with both wallets installed and granting, and one constructed
  where Kaikas rejects the request for the accounts.
\<close>

definition ex_adapter :: WalletAdapter where
  "ex_adapter = new_WalletAdapter ex_env_ok"

definition ex_adapter_rejecting :: WalletAdapter where
  "ex_adapter_rejecting = new_WalletAdapter ex_env_kaikas_rejects"

section \<open>Predicates of the specification and of the claims\<close>





text \<open>
  The facts about all fields of a backend from which the invariants of its state follow.
  In every run: no step ends in \<open>Connecting\<close>, and a \<open>Disconnected\<close> backend holds no
  handle. In the runs in order, moreover: a \<open>Disconnected\<close> backend has no account and
  no network, and a call is suspended only while there is a handle.
\<close>

definition backend_inv :: "KaiaWalletService \<Rightarrow> bool" where
  "backend_inv s \<longleftrightarrow>
     status (state s) \<noteq> CONNECTING \<and>
     (status (state s) = CONNECTED \<longrightarrow> account (state s) \<noteq> None) \<and>
     (status (state s) = DISCONNECTED \<longrightarrow> web3Provider s = None) \<and>
     (status (state s) = ERROR \<longrightarrow> error (state s) \<noteq> None)"


text \<open>
  What the caller of \<open>connect\<close> receives when a failure \<open>e\<close> reaches the \<open>catch\<close> block:
  \<open>e\<close>, unless nobody listens to \<open>error\<close> and \<open>e\<close> is no instance of \<open>Error\<close>; then
  the emitter's own error, thrown out of \<open>handleError\<close> before \<open>throw error\<close> is reached.
\<close>

definition rethrown :: "KaiaWalletService \<Rightarrow> js_error \<Rightarrow> js_error" where
  "rethrown s e =
     (if listenerCount s EvnError = 0 \<and> \<not> instanceofError e then unhandled_error e else e)"

text \<open>An operation resolved (\<open>Inr\<close>) rather than threw.\<close>

definition resolved :: "js_error + 'a \<Rightarrow> bool" where
  "resolved r = (case r of Inl e \<Rightarrow> False | Inr v \<Rightarrow> True)"

text \<open>
  \<open>can_connect env ad p\<close>: a backend is registered for \<open>p\<close>, it is available, and its
  \<open>connect()\<close> succeeds in \<open>env\<close>.
\<close>

definition can_connect :: "Env \<Rightarrow> WalletAdapter \<Rightarrow> WalletProvider \<Rightarrow> bool" where
  "can_connect env ad p =
     (case deref ad p of
        None \<Rightarrow> False
      | Some wlt \<Rightarrow> isAvailable env wlt \<and> resolved (fst (connect env wlt)))"

text \<open>The decimal digits, for the shape of a printed balance.\<close>

definition decimal_string :: "string \<Rightarrow> bool" where
  "decimal_string str \<longleftrightarrow>
     (case str of
        [] \<Rightarrow> False
      | c # cs \<Rightarrow>
          if c = CHR ''-'' then cs \<noteq> [] \<and> list_all (\<lambda>d. d \<in> set ''0123456789'') cs
          else list_all (\<lambda>d. d \<in> set ''0123456789'') (c # cs))"


section \<open>Facts about one backend\<close>

lemma isAvailable_getProvider:
  "isAvailable env s \<Longrightarrow> \<exists>p. getProvider env s = Inr (Some p) \<and> brandMarker p"
  by (auto simp: isAvailable_def getProvider_def split: option.splits WalletProvider.splits)

lemma getProvider_updateState [simp]: "getProvider env (updateState s u) = getProvider env s"
  by (simp add: getProvider_def updateState_def split: WalletProvider.splits)

lemma listenerCount_fields [simp]:
  "listenerCount (updateState s u) n = listenerCount s n"
  "listenerCount (s\<lparr>web3Provider := h\<rparr>) n = listenerCount s n"
  "listenerCount (s\<lparr>emitted := es\<rparr>) n = listenerCount s n"
  "listenerCount (s\<lparr>pending := ts\<rparr>) n = listenerCount s n"
  by (simp_all add: listenerCount_def updateState_def)

lemma snd_emit: "snd (emit s ev) = s\<lparr>emitted := emitted s @ [ev]\<rparr>"
  by (cases ev) (simp_all add: emit_def Let_def)

lemma fst_emit_error:
  "fst (emit s (EvError e)) =
     (if listenerCount s EvnError = 0
      then Inl (if instanceofError e then e else unhandled_error e) else Inr ())"
  by (simp add: emit_def Let_def)

lemma fst_emit_other: "eventName ev \<noteq> EvnError \<Longrightarrow> fst (emit s ev) = Inr ()"
  by (cases ev) (simp_all add: emit_def Let_def)

lemma emit_other:
  "eventName ev \<noteq> EvnError \<Longrightarrow> emit s ev = (Inr (), s\<lparr>emitted := emitted s @ [ev]\<rparr>)"
  using fst_emit_other [of ev s] snd_emit [of s ev] by (simp add: prod_eq_iff)

lemma unhandled_error_differs: "\<not> instanceofError e \<Longrightarrow> unhandled_error e \<noteq> e"
proof
  assume n: "\<not> instanceofError e" and eq: "unhandled_error e = e"
  have "instanceofError (unhandled_error e)"
    by (simp add: unhandled_error_def new_Error_def)
  with eq n show False by simp
qed

lemma updateState_fields [simp]:
  "web3Provider (updateState s u) = web3Provider s"
  "wallet (updateState s u) = wallet s"
  "walletProvider (updateState s u) = walletProvider s"
  "listeners (updateState s u) = listeners s"
  "emitted (updateState s u) = emitted s"
  "subscribed (updateState s u) = subscribed s"
  "pending (updateState s u) = pending s"
  by (simp_all add: updateState_def)

text \<open>
  The \<open>catch\<close> block of \<open>connect\<close>: the state goes to \<open>Error\<close> with the message, the
  event is handed to the emitter, and the caller receives \<open>rethrown\<close>.
\<close>

lemma handleError_catch:
  "(case handleError s e of
      (Inl thrown, s'') \<Rightarrow> (Inl thrown :: js_error + Account, s'')
    | (Inr _, s'') \<Rightarrow> (Inl e, s'')) =
   (Inl (rethrown s e),
    (updateState s (no_updates\<lparr>u_status := Some ERROR, u_error := Some (Some (message e))\<rparr>))
      \<lparr>emitted := emitted s @ [EvError e]\<rparr>)"
proof -
  have "handleError s e =
      (fst (emit (updateState s
         (no_updates\<lparr>u_status := Some ERROR, u_error := Some (Some (message e))\<rparr>)) (EvError e)),
       (updateState s (no_updates\<lparr>u_status := Some ERROR, u_error := Some (Some (message e))\<rparr>))
         \<lparr>emitted := emitted s @ [EvError e]\<rparr>)"
    by (simp add: handleError_def prod_eq_iff snd_emit)
  then show ?thesis
    by (simp add: fst_emit_error rethrown_def)
qed

lemma connect_try_Inl:
  assumes "isAvailable env s" and "connect_try env s = (Inl e, s')"
  shows "\<exists>p. getProvider env s = Inr (Some p) \<and>
           s' = (updateState s (no_updates\<lparr>u_status := Some CONNECTING\<rparr>))
                  \<lparr>web3Provider := Some (new_Web3Provider env p)\<rparr>"
proof -
  from assms(1) obtain p where p: "getProvider env s = Inr (Some p)"
    using isAvailable_getProvider by blast
  with assms(2) show ?thesis
    by (auto simp: connect_try_def Let_def emit_other
          split: sum.splits option.splits list.splits)
qed

lemma connect_try_Inr:
  assumes "connect_try env s = (Inr acct, s')"
  shows "\<exists>p. getProvider env s = Inr (Some p) \<and>
           s' = (updateState
                  ((updateState s (no_updates\<lparr>u_status := Some CONNECTING\<rparr>))
                     \<lparr>web3Provider := Some (new_Web3Provider env p)\<rparr>)
                  (no_updates\<lparr>u_status := Some CONNECTED, u_account := Some (Some acct),
                     u_network := Some (getNetwork
                        ((updateState s (no_updates\<lparr>u_status := Some CONNECTING\<rparr>))
                           \<lparr>web3Provider := Some (new_Web3Provider env p)\<rparr>)),
                     u_error := Some None\<rparr>))\<lparr>emitted := emitted s @ [EvConnect acct]\<rparr>"
  using assms
  by (auto simp: connect_try_def Let_def emit_other
        split: sum.splits option.splits list.splits)

lemma connect_unavailable:
  "\<not> isAvailable env s \<Longrightarrow>
   connect env s = (Inl (new_Error (providerName (walletProvider s) @ MSG_NOT_INSTALLED)), s)"
  by (simp add: connect_def)

text \<open>
  A failed \<open>connect()\<close> on an available backend: some failure \<open>e\<close> reached the \<open>catch\<close>
  block, and the caller received \<open>rethrown s e\<close>.
\<close>

lemma connect_failed:
  assumes "isAvailable env s" and "connect env s = (Inl t, s')"
  shows "\<exists>e. fst (connect_try env s) = Inl e \<and>
         t = rethrown s e \<and>
         status (state s') = ERROR \<and> error (state s') = Some (message e) \<and>
         account (state s') = account (state s) \<and> network (state s') = network (state s) \<and>
         provider (state s') = provider (state s) \<and>
         (\<exists>p. getProvider env s = Inr (Some p) \<and>
              web3Provider s' = Some (new_Web3Provider env p)) \<and>
         emitted s' = emitted s @ [EvError e] \<and>
         wallet s' = wallet s \<and> walletProvider s' = walletProvider s \<and>
         listeners s' = listeners s \<and> pending s' = pending s \<and>
         subscribed s' = subscribed s"
proof -
  obtain r s1 where c: "connect_try env s = (r, s1)" by (cases "connect_try env s")
  with assms obtain e where r: "r = Inl e"
    by (cases r) (auto simp: connect_def)
  from connect_try_Inl [OF assms(1)] c r obtain p where
    p: "getProvider env s = Inr (Some p)"
    and s1: "s1 = (updateState s (no_updates\<lparr>u_status := Some CONNECTING\<rparr>))
                  \<lparr>web3Provider := Some (new_Web3Provider env p)\<rparr>" by blast
  from assms c r have "(Inl t :: js_error + Account, s') =
      (case handleError s1 e of
         (Inl thrown, s'') \<Rightarrow> (Inl thrown :: js_error + Account, s'')
       | (Inr _, s'') \<Rightarrow> (Inl e, s''))"
    by (simp add: connect_def)
  then have "(Inl t :: js_error + Account, s') = (Inl (rethrown s1 e),
      (updateState s1 (no_updates\<lparr>u_status := Some ERROR, u_error := Some (Some (message e))\<rparr>))
        \<lparr>emitted := emitted s1 @ [EvError e]\<rparr>)"
    by (simp only: handleError_catch)
  then have t: "t = rethrown s1 e" and s': "s' =
      (updateState s1 (no_updates\<lparr>u_status := Some ERROR, u_error := Some (Some (message e))\<rparr>))
        \<lparr>emitted := emitted s1 @ [EvError e]\<rparr>"
    by simp_all
  have "rethrown s1 e = rethrown s e"
    by (simp add: rethrown_def s1)
  with t s' s1 p c r show ?thesis
    by (auto simp: updateState_def spread_def no_updates_def)
qed

lemma connect_Inr:
  assumes "connect env s = (Inr acct, s')"
  shows "status (state s') = CONNECTED \<and> error (state s') = None \<and>
         account (state s') = Some acct \<and>
         provider (state s') = provider (state s) \<and>
         (\<exists>p. getProvider env s = Inr (Some p) \<and>
              web3Provider s' = Some (new_Web3Provider env p)) \<and>
         emitted s' = emitted s @ [EvConnect acct] \<and>
         wallet s' = wallet s \<and> walletProvider s' = walletProvider s \<and>
         listeners s' = listeners s \<and> pending s' = pending s \<and>
         subscribed s' = subscribed s \<and> isAvailable env s"
proof -
  from assms have s1: "connect_try env s = (Inr acct, s')" and av: "isAvailable env s"
    by (auto simp: connect_def split: prod.splits sum.splits if_splits)
  from connect_try_Inr [OF s1] av show ?thesis
    by (auto simp: updateState_def spread_def no_updates_def)
qed

lemma disconnect_fields:
  "fst (disconnect s) = Inr () \<and>
   state (snd (disconnect s)) =
     \<lparr>status = DISCONNECTED, account = None, network = None,
      provider = provider (state s), error = None\<rparr> \<and>
   web3Provider (snd (disconnect s)) = None \<and>
   wallet (snd (disconnect s)) = None \<and>
   walletProvider (snd (disconnect s)) = walletProvider s \<and>
   emitted (snd (disconnect s)) = emitted s @ [EvDisconnect] \<and>
   listeners (snd (disconnect s)) = listeners s \<and>
   pending (snd (disconnect s)) = pending s \<and>
   subscribed (snd (disconnect s)) = subscribed s"
  by (simp add: disconnect_def emit_other updateState_def spread_def no_updates_def)

lemma getAccount_None: "web3Provider s = None \<Longrightarrow> getAccount s = None"
  by (simp add: getAccount_def)

lemma getNetwork_None: "web3Provider s = None \<Longrightarrow> getNetwork s = None"
  by (simp add: getNetwork_def)

text \<open>The listeners up to their first \<open>await\<close>.\<close>

lemma on_accountsChanged_fields:
  "accounts \<noteq> [] \<Longrightarrow>
   state (on_accountsChanged s accounts) = state s \<and>
   web3Provider (on_accountsChanged s accounts) = web3Provider s \<and>
   walletProvider (on_accountsChanged s accounts) = walletProvider s \<and>
   listeners (on_accountsChanged s accounts) = listeners s \<and>
   subscribed (on_accountsChanged s accounts) = subscribed s \<and>
   emitted (on_accountsChanged s accounts) = emitted s @ [EvAccountsChanged accounts] \<and>
   pending (on_accountsChanged s accounts) =
     (case web3Provider s of
        None \<Rightarrow> pending s
      | Some h \<Rightarrow> pending s @ [Await_getAccount_listAccounts h])"
  by (simp add: on_accountsChanged_def emit_other launch_def start_getAccount_def settle_def
        split: option.splits)

lemma on_accountsChanged_empty:
  "on_accountsChanged s [] = snd (disconnect (snd (emit s (EvAccountsChanged []))))"
  by (simp add: on_accountsChanged_def emit_other)

lemma on_chainChanged_fields:
  "status (state (on_chainChanged s c)) = status (state s) \<and>
   account (state (on_chainChanged s c)) = account (state s) \<and>
   error (state (on_chainChanged s c)) = error (state s) \<and>
   network (state (on_chainChanged s c)) =
     (case web3Provider s of None \<Rightarrow> None | Some h \<Rightarrow> network (state s)) \<and>
   web3Provider (on_chainChanged s c) = web3Provider s \<and>
   walletProvider (on_chainChanged s c) = walletProvider s \<and>
   listeners (on_chainChanged s c) = listeners s \<and>
   subscribed (on_chainChanged s c) = subscribed s \<and>
   emitted (on_chainChanged s c) = emitted s @ [EvChainChanged c] \<and>
   pending (on_chainChanged s c) =
     (case web3Provider s of None \<Rightarrow> pending s | Some h \<Rightarrow> pending s @ [Await_getNetwork h])"
  by (simp add: on_chainChanged_def emit_other launch_def start_getNetwork_def settle_def
        updateState_def spread_def no_updates_def split: option.splits)

text \<open>A resumption changes the account, the network and the suspended calls only.\<close>

lemma settle_fields:
  "status (state (settle s r)) = status (state s) \<and>
   error (state (settle s r)) = error (state s) \<and>
   provider (state (settle s r)) = provider (state s) \<and>
   web3Provider (settle s r) = web3Provider s \<and>
   walletProvider (settle s r) = walletProvider s \<and>
   listeners (settle s r) = listeners s \<and>
   subscribed (settle s r) = subscribed s \<and>
   emitted (settle s r) = emitted s \<and>
   pending (settle s r) = pending s \<and>
   (account (state (settle s r)) = account (state s) \<or>
    account (state (settle s r)) \<noteq> None) \<and>
   ((\<forall>a. r \<noteq> AccountSettled (Some a)) \<longrightarrow> account (state (settle s r)) = account (state s)) \<and>
   ((\<forall>n. r \<noteq> NetworkSettled n) \<longrightarrow> network (state (settle s r)) = network (state s))"
  by (cases r)
     (auto simp: settle_def updateState_def spread_def no_updates_def split: option.splits)

lemma resume_fields:
  "status (state (resume i s)) = status (state s) \<and>
   error (state (resume i s)) = error (state s) \<and>
   provider (state (resume i s)) = provider (state s) \<and>
   web3Provider (resume i s) = web3Provider s \<and>
   walletProvider (resume i s) = walletProvider s \<and>
   listeners (resume i s) = listeners s \<and>
   subscribed (resume i s) = subscribed s \<and>
   emitted (resume i s) = emitted s \<and>
   (account (state (resume i s)) = account (state s) \<or>
    account (state (resume i s)) \<noteq> None)"
proof (cases "i < length (pending s)")
  case False
  then show ?thesis by (simp add: resume_def)
next
  case True
  show ?thesis
  proof (cases "advance s (pending s ! i)")
    case (Inl t)
    with True show ?thesis by (simp add: resume_def)
  next
    case (Inr r)
    with True settle_fields [of "s\<lparr>pending := take i (pending s) @ drop (Suc i) (pending s)\<rparr>" r]
    show ?thesis by (simp add: resume_def)
  qed
qed

lemma on_off_fields:
  "state (on s n l) = state s \<and> web3Provider (on s n l) = web3Provider s \<and>
   walletProvider (on s n l) = walletProvider s \<and> subscribed (on s n l) = subscribed s \<and>
   emitted (on s n l) = emitted s \<and> pending (on s n l) = pending s \<and>
   state (off s n l) = state s \<and> web3Provider (off s n l) = web3Provider s \<and>
   walletProvider (off s n l) = walletProvider s \<and> subscribed (off s n l) = subscribed s \<and>
   emitted (off s n l) = emitted s \<and> pending (off s n l) = pending s"
  by (simp add: on_def off_def)

lemma new_KaiaWalletService_fields:
  "state (new_KaiaWalletService env p) = initial_state\<lparr>provider := Some p\<rparr> \<and>
   web3Provider (new_KaiaWalletService env p) = None \<and>
   walletProvider (new_KaiaWalletService env p) = p \<and>
   listeners (new_KaiaWalletService env p) = [] \<and>
   emitted (new_KaiaWalletService env p) = [] \<and>
   pending (new_KaiaWalletService env p) = [] \<and>
   subscribed (new_KaiaWalletService env p) = isAvailable env (new_KaiaWalletService env p)"
proof -
  let ?s0 = "\<lparr>state = initial_state\<lparr>provider := Some p\<rparr>, web3Provider = None, wallet = None,
              walletProvider = p, listeners = [], emitted = [], subscribed = False,
              pending = []\<rparr>"
  have av: "isAvailable env (new_KaiaWalletService env p) = isAvailable env ?s0"
    by (simp add: new_KaiaWalletService_def setupEventListeners_def isAvailable_def
          split: sum.splits option.splits)
  show ?thesis
  proof (cases "isAvailable env ?s0")
    case True
    then obtain q where "getProvider env ?s0 = Inr (Some q)"
      using isAvailable_getProvider by blast
    with True av show ?thesis
      by (simp add: new_KaiaWalletService_def setupEventListeners_def)
  next
    case False
    with av show ?thesis
      by (simp add: new_KaiaWalletService_def setupEventListeners_def)
  qed
qed

subsection \<open>The invariants of the fields\<close>

lemma backend_inv_new: "backend_inv (new_KaiaWalletService env p)"
  by (simp add: backend_inv_def new_KaiaWalletService_fields initial_state_def)

lemma connect_cases:
  obtains (unavailable) "\<not> isAvailable env s" "snd (connect env s) = s"
  | (failed) t where "isAvailable env s" "connect env s = (Inl t, snd (connect env s))"
  | (connected) acct where "connect env s = (Inr acct, snd (connect env s))"
proof (cases "isAvailable env s")
  case False
  then show ?thesis using unavailable by (simp add: connect_unavailable)
next
  case True
  show ?thesis
  proof (cases "fst (connect env s)")
    case (Inl t)
    then have "connect env s = (Inl t, snd (connect env s))" by (simp add: prod_eq_iff)
    with True show ?thesis using failed by blast
  next
    case (Inr acct)
    then have "connect env s = (Inr acct, snd (connect env s))" by (simp add: prod_eq_iff)
    then show ?thesis using connected by blast
  qed
qed

lemma backend_inv_connect:
  assumes "backend_inv s"
  shows "backend_inv (snd (connect env s))"
proof (cases env s rule: connect_cases)
  case unavailable
  with assms show ?thesis by simp
next
  case (failed t)
  from connect_failed [OF this] show ?thesis
    by (auto simp: backend_inv_def)
next
  case (connected acct)
  from connect_Inr [OF this] show ?thesis
    by (auto simp: backend_inv_def)
qed

lemma backend_inv_disconnect: "backend_inv (snd (disconnect s))"
  by (simp add: backend_inv_def disconnect_fields)

lemma backend_inv_resume:
  assumes "backend_inv s"
  shows "backend_inv (resume i s)"
  using assms resume_fields [of i s] by (auto simp: backend_inv_def)

lemma backend_inv_native:
  assumes "backend_inv s"
  shows "backend_inv (provider_emits ev s)"
proof (cases "subscribed s")
  case False
  with assms show ?thesis by (simp add: provider_emits_def)
next
  case True
  show ?thesis
  proof (cases ev)
    case (NativeAccountsChanged accounts)
    show ?thesis
    proof (cases "accounts = []")
      case True
      with NativeAccountsChanged \<open>subscribed s\<close> show ?thesis
        by (simp add: provider_emits_def on_accountsChanged_empty backend_inv_disconnect)
    next
      case False
      with assms NativeAccountsChanged \<open>subscribed s\<close> on_accountsChanged_fields [OF False, of s]
      show ?thesis
        by (simp add: provider_emits_def backend_inv_def)
    qed
  next
    case (NativeChainChanged c)
    with assms \<open>subscribed s\<close> on_chainChanged_fields [of s c] show ?thesis
      by (simp add: provider_emits_def backend_inv_def)
  next
    case NativeDisconnect
    with \<open>subscribed s\<close> show ?thesis
      by (simp add: provider_emits_def on_disconnect_def backend_inv_disconnect)
  qed
qed

lemma backend_inv_step: "svc_step s s' \<Longrightarrow> backend_inv s \<Longrightarrow> backend_inv s'"
proof (induction rule: svc_step.induct)
  case (step_connect s env)
  then show ?case by (rule backend_inv_connect)
next
  case (step_disconnect s)
  show ?case by (rule backend_inv_disconnect)
next
  case (step_on s event listener)
  then show ?case by (simp add: backend_inv_def on_off_fields)
next
  case (step_off s event listener)
  then show ?case by (simp add: backend_inv_def on_off_fields)
next
  case (step_native s ev)
  then show ?case by (rule backend_inv_native)
next
  case (step_resume s i)
  then show ?case by (rule backend_inv_resume)
next
  case (step_answers s h h')
  then show ?case by (auto simp: backend_inv_def)
qed

lemma reachable_backend_inv: "reachable s \<Longrightarrow> backend_inv s"
  by (induction rule: reachable.induct) (auto intro: backend_inv_new backend_inv_step)








text \<open>The native listeners stay registered.\<close>

lemma subscribed_step: "svc_step s s' \<Longrightarrow> subscribed s' = subscribed s"
proof (induction rule: svc_step.induct)
  case (step_connect s env)
  show ?case
  proof (cases env s rule: connect_cases)
    case unavailable
    then show ?thesis by simp
  next
    case (failed t)
    from connect_failed [OF this] show ?thesis by auto
  next
    case (connected acct)
    from connect_Inr [OF this] show ?thesis by simp
  qed
next
  case (step_disconnect s)
  show ?case by (simp add: disconnect_fields)
next
  case (step_on s event listener)
  show ?case by (simp add: on_off_fields)
next
  case (step_off s event listener)
  show ?case by (simp add: on_off_fields)
next
  case (step_native s ev)
  show ?case
  proof (cases ev)
    case (NativeAccountsChanged accounts)
    then show ?thesis
      using on_accountsChanged_fields [of accounts s]
      by (cases "accounts = []")
         (simp_all add: provider_emits_def on_accountsChanged_empty disconnect_fields snd_emit)
  next
    case (NativeChainChanged c)
    then show ?thesis by (simp add: provider_emits_def on_chainChanged_fields)
  next
    case NativeDisconnect
    then show ?thesis by (simp add: provider_emits_def on_disconnect_def disconnect_fields)
  qed
next
  case (step_resume s i)
  show ?case by (simp add: resume_fields)
next
  case (step_answers s h h')
  show ?case by simp
qed

lemma subscribed_steps: "svc_step\<^sup>*\<^sup>* s s' \<Longrightarrow> subscribed s' = subscribed s"
  by (induction rule: rtranclp_induct) (auto simp: subscribed_step)

subsection \<open>Printed numbers are decimal strings\<close>

lemma digit_char_decimal: "d < 10 \<Longrightarrow> digit_char d \<in> set ''0123456789''"
proof -
  assume "d < 10"
  then have "d = 0 \<or> d = 1 \<or> d = 2 \<or> d = 3 \<or> d = 4 \<or> d = 5 \<or> d = 6 \<or> d = 7 \<or> d = 8 \<or> d = 9"
    by arith
  then show ?thesis
    by (elim disjE) (simp_all add: digit_char_def)
qed

lemma nat_toString_decimal:
  "nat_toString 10 n \<noteq> [] \<and> list_all (\<lambda>d. d \<in> set ''0123456789'') (nat_toString 10 n)"
proof (induction "10::nat" n rule: nat_toString.induct)
  case (1 n)
  show ?case
  proof (cases "n < 10")
    case True
    then show ?thesis
      using digit_char_decimal [of n] by (simp add: nat_toString.simps [of 10 n])
  next
    case False
    then have "list_all (\<lambda>d. d \<in> set ''0123456789'') (nat_toString 10 (n div 10))"
      using "1" by simp
    moreover have "digit_char (n mod 10) \<in> set ''0123456789''"
      by (rule digit_char_decimal) simp
    ultimately show ?thesis
      using False by (simp add: nat_toString.simps [of 10 n])
  qed
qed

lemma int_toString_decimal: "decimal_string (int_toString 10 i)"
proof (cases "i < 0")
  case True
  then show ?thesis
    using nat_toString_decimal [of "nat (- i)"]
    by (simp add: int_toString_def decimal_string_def)
next
  case False
  obtain c cs where cs: "nat_toString 10 (nat i) = c # cs"
    using nat_toString_decimal [of "nat i"] by (cases "nat_toString 10 (nat i)") auto
  with nat_toString_decimal [of "nat i"] have "c \<in> set ''0123456789''" by simp
  then have "c \<noteq> CHR ''-''" by auto
  with False cs nat_toString_decimal [of "nat i"] show ?thesis
    by (simp add: int_toString_def decimal_string_def)
qed

subsection \<open>The queries on a backend that holds a handle\<close>


lemma getBalance_with_handle:
  "web3Provider s = Some h \<Longrightarrow>
   getBalance s addr =
     (case getBalance_try h addr of
        Inl e \<Rightarrow> Inl (new_Error (MSG_BALANCE_FAILED @ message e))
      | Inr bal \<Rightarrow> Inr bal)"
  by (simp add: getBalance_def)




lemma getBalance_try_first_account:
  "w3_listAccounts h = Inr (Some (a # as)) \<Longrightarrow> addr = None \<or> addr = Some [] \<Longrightarrow>
   getBalance_try h addr =
     (case w3_getBalance h (entry_address a) of
        Inl e \<Rightarrow> Inl e | Inr n \<Rightarrow> Inr (int_toString 10 n))"
  by (auto simp: getBalance_try_def)

lemma getBalance_try_given:
  "getBalance_try h (Some (c # cs)) =
     (case w3_getBalance h (c # cs) of Inl e \<Rightarrow> Inl e | Inr n \<Rightarrow> Inr (int_toString 10 n))"
  by (simp add: getBalance_try_def)

lemma getBalance_try_of_first:
  "w3_listAccounts h = Inr (Some (a # as)) \<Longrightarrow>
   getBalance_try h (Some (entry_address a)) =
     (case w3_getBalance h (entry_address a) of
        Inl e \<Rightarrow> Inl e | Inr n \<Rightarrow> Inr (int_toString 10 n))"
  by (cases "entry_address a") (simp_all add: getBalance_try_first_account getBalance_try_given)

lemma getBalance_try_decimal: "getBalance_try h addr = Inr b \<Longrightarrow> decimal_string b"
  by (auto simp: getBalance_try_def int_toString_decimal
        split: sum.splits option.splits list.splits)



text \<open>The outcome of \<open>connect()\<close> on an available backend, cause by cause.\<close>

lemma connect_try_outcome:
  assumes "isAvailable env s" and "getProvider env s = Inr (Some p)"
  shows "fst (connect_try env s) =
           (case request p EthRequestAccounts of
              Inl e \<Rightarrow> Inl e
            | Inr _ \<Rightarrow>
                (case w3_listAccounts (new_Web3Provider env p) of
                   Inl e \<Rightarrow> Inl e
                 | Inr None \<Rightarrow> Inl (new_Error MSG_NO_ACCOUNT)
                 | Inr (Some []) \<Rightarrow> Inl (new_Error MSG_NO_ACCOUNT)
                 | Inr (Some (a # as)) \<Rightarrow>
                     (case w3_getBalance (new_Web3Provider env p) (entry_address a) of
                        Inl e \<Rightarrow> Inl (new_Error (MSG_BALANCE_FAILED @ message e))
                      | Inr n \<Rightarrow>
                          Inr \<lparr>address = entry_address a, balance = int_toString 10 n\<rparr>)))"
  using assms
  by (simp add: connect_try_def Let_def getBalance_def getBalance_try_of_first emit_other
        split: sum.splits option.splits list.splits)

lemma connect_outcome:
  assumes "isAvailable env s"
  shows "fst (connect env s) =
           (case fst (connect_try env s) of Inl e \<Rightarrow> Inl (rethrown s e) | Inr acct \<Rightarrow> Inr acct)"
proof (cases env s rule: connect_cases)
  case unavailable
  with assms show ?thesis by simp
next
  case (failed t)
  from connect_failed [OF this] obtain e where
    "fst (connect_try env s) = Inl e" "t = rethrown s e" by blast
  with failed(2) show ?thesis by (metis fst_conv sum.simps(5))
next
  case (connected acct)
  then have "fst (connect_try env s) = Inr acct"
    by (auto simp: connect_def split: prod.splits sum.splits if_splits)
  with connected show ?thesis by (metis fst_conv sum.simps(6))
qed

lemma connect_after_request:
  assumes "isAvailable env s" and "getProvider env s = Inr (Some p)"
      and "request p EthRequestAccounts = Inr ()"
  shows "fst (connect env s) =
           (case w3_listAccounts (new_Web3Provider env p) of
              Inl e \<Rightarrow> Inl (rethrown s e)
            | Inr None \<Rightarrow> Inl (new_Error MSG_NO_ACCOUNT)
            | Inr (Some []) \<Rightarrow> Inl (new_Error MSG_NO_ACCOUNT)
            | Inr (Some (a # as)) \<Rightarrow>
                (case w3_getBalance (new_Web3Provider env p) (entry_address a) of
                   Inl e \<Rightarrow> Inl (new_Error (MSG_BALANCE_FAILED @ message e))
                 | Inr n \<Rightarrow> Inr \<lparr>address = entry_address a, balance = int_toString 10 n\<rparr>))"
  using assms
  by (simp add: connect_outcome connect_try_outcome rethrown_def new_Error_def
        split: sum.splits option.splits list.splits)

lemma connect_request_rejected:
  assumes "isAvailable env s" and "getProvider env s = Inr (Some p)"
      and "request p EthRequestAccounts = Inl e"
  shows "fst (connect_try env s) = Inl e \<and> fst (connect env s) = Inl (rethrown s e)"
  using assms by (simp add: connect_outcome connect_try_outcome)

lemma connect_network_of_handle:
  assumes "connect env s = (Inr acct, s')" and "getProvider env s = Inr (Some p)"
  shows "network (state s') =
           (case w3_getNetwork (new_Web3Provider env p) of
              Inl e \<Rightarrow> None | Inr c \<Rightarrow> getNetworkByChainId c)"
proof -
  from assms(1) have "connect_try env s = (Inr acct, s')"
    by (auto simp: connect_def split: prod.splits sum.splits if_splits)
  from connect_try_Inr [OF this] assms(2) show ?thesis
    by (simp add: updateState_def spread_def no_updates_def getNetwork_def)
qed

text \<open>Whether \<open>connect()\<close> succeeds depends on the kind of the backend and on the environment only.\<close>

lemma isAvailable_kind:
  "walletProvider s1 = walletProvider s2 \<Longrightarrow> isAvailable env s1 = isAvailable env s2"
  by (simp add: isAvailable_def split: option.splits WalletProvider.splits)

lemma getProvider_kind:
  "walletProvider s1 = walletProvider s2 \<Longrightarrow> getProvider env s1 = getProvider env s2"
  by (simp add: getProvider_def split: WalletProvider.splits)

lemma connect_resolved_kind:
  assumes "walletProvider s1 = walletProvider s2"
  shows "resolved (fst (connect env s1)) = resolved (fst (connect env s2))"
proof (cases "isAvailable env s1")
  case False
  with assms isAvailable_kind [OF assms, of env] show ?thesis
    by (simp add: connect_unavailable)
next
  case True
  then have a2: "isAvailable env s2" using isAvailable_kind [OF assms, of env] by simp
  from True obtain p where p1: "getProvider env s1 = Inr (Some p)"
    using isAvailable_getProvider by blast
  then have p2: "getProvider env s2 = Inr (Some p)"
    using getProvider_kind [OF assms, of env] by simp
  have "fst (connect_try env s1) = fst (connect_try env s2)"
    by (simp add: connect_try_outcome [OF True p1] connect_try_outcome [OF a2 p2])
  then show ?thesis
    by (simp add: connect_outcome [OF True] connect_outcome [OF a2] resolved_def
          split: sum.splits)
qed

text \<open>
  The calls of the listeners, resumed to their end with nothing in between, settle with
  what \<open>getAccount()\<close> and \<open>getNetwork()\<close> return to a caller that awaits them.
\<close>

lemma getNetwork_by_steps: "run_to_end s (start_getNetwork s) = NetworkSettled (getNetwork s)"
  by (simp add: run_to_end_def start_getNetwork_def getNetwork_def
        split: option.splits sum.splits)

lemma getAccount_by_steps: "run_to_end s (start_getAccount s) = AccountSettled (getAccount s)"
proof (cases "web3Provider s")
  case None
  then show ?thesis
    by (simp add: run_to_end_def start_getAccount_def getAccount_def)
next
  case (Some h)
  show ?thesis
  proof (cases "w3_listAccounts h")
    case (Inl e)
    with Some show ?thesis
      by (simp add: run_to_end_def start_getAccount_def getAccount_def)
  next
    case (Inr accounts)
    show ?thesis
    proof (cases accounts)
      case None
      with Some Inr show ?thesis
        by (simp add: run_to_end_def start_getAccount_def getAccount_def)
    next
      case (Some as)
      show ?thesis
      proof (cases as)
        case Nil
        with \<open>web3Provider s = Some h\<close> Inr Some show ?thesis
          by (simp add: run_to_end_def start_getAccount_def getAccount_def)
      next
        case (Cons a rest)
        with \<open>web3Provider s = Some h\<close> Inr Some
        have l: "w3_listAccounts h = Inr (Some (a # rest))" by simp
        from l \<open>web3Provider s = Some h\<close> show ?thesis
          by (cases "entry_address a"; cases "w3_getBalance h (entry_address a)")
             (simp_all add: run_to_end_def start_getAccount_def start_getBalance_def
                getAccount_def getBalance_def getBalance_try_def)
      qed
    qed
  qed
qed

section \<open>The claims about one backend\<close>

lemmas backend_defs =
  connect_def connect_try_def isAvailable_def getProvider_def updateState_def spread_def
  no_updates_def emit_def handleError_def listenerCount_def getBalance_def getBalance_try_def
  getNetwork_def getAccount_def entry_address_def new_KaiaWalletService_def
  setupEventListeners_def initial_state_def disconnect_def getState_def provider_emits_def
  on_accountsChanged_def on_chainChanged_def on_disconnect_def launch_def
  start_getAccount_def start_getNetwork_def settle_def new_Error_def Let_def

lemmas example_defs =
  ex_env_ok_def ex_env_kaikas_rejects_def ex_env_kaikas_rejects_plain_def ex_env_none_def
  ex_env_def ex_granting_def ex_rejecting_def ex_rejecting_plain_def ex_unknown_chain_def
  ex_web3_def ex_web3_no_accounts_def ex_web3_no_network_def ex_account_def

lemmas print_defs = int_toString_def nat_toString.simps digit_char_def

subsection \<open>The example backends, evaluated\<close>

lemma ex_backend_fields:
  "state ex_backend = initial_state\<lparr>provider := Some KAIKAS\<rparr> \<and>
   web3Provider ex_backend = None \<and> walletProvider ex_backend = KAIKAS \<and>
   listeners ex_backend = [] \<and> emitted ex_backend = [] \<and> pending ex_backend = [] \<and>
   subscribed ex_backend \<and>
   isAvailable ex_env_ok ex_backend \<and> isAvailable ex_env_kaikas_rejects ex_backend \<and>
   isAvailable ex_env_kaikas_rejects_plain ex_backend"
  by (simp add: ex_backend_def backend_defs example_defs)

lemma ex_connect_result: "connect ex_env_ok ex_backend = (Inr ex_account, ex_connected)"
proof -
  have "fst (connect ex_env_ok ex_backend) = Inr ex_account"
    by (simp add: ex_backend_def backend_defs example_defs print_defs)
  then show ?thesis
    by (simp add: ex_connected_def prod_eq_iff)
qed

lemma ex_connected_fields:
  "state ex_connected =
     \<lparr>status = CONNECTED, account = Some ex_account, network = getNetworkByChainId 8217,
      provider = Some KAIKAS, error = None\<rparr> \<and>
   web3Provider ex_connected = Some ex_web3 \<and> walletProvider ex_connected = KAIKAS \<and>
   listeners ex_connected = [] \<and> pending ex_connected = [] \<and>
   emitted ex_connected = [EvConnect ex_account] \<and> subscribed ex_connected"
  unfolding ex_connected_def
  by (simp add: ex_backend_def backend_defs example_defs print_defs)




lemma ex_reachable:
  "reachable ex_backend" "reachable ex_connected" "reachable ex_reconnect_rejected"
  unfolding ex_backend_def ex_connected_def ex_reconnect_rejected_def
  by (intro reachable_step [OF _ step_connect] reachable_new)+





text \<open>
  C6. \<open>disconnect()\<close> resolves from every state of the fields, clears the provider
  handle, leaves the state \<open>Disconnected\<close> with account, network and error null, and
  emits \<open>disconnect\<close>. A second call resolves too and changes nothing but the log of
  emitted events, which gets a second \<open>disconnect\<close>.
\<close>

theorem disconnect_resets_and_is_idempotent:
  "fst (disconnect s) = Inr () \<and>
   web3Provider (snd (disconnect s)) = None \<and>
   getState (snd (disconnect s)) =
     \<lparr>status = DISCONNECTED, account = None, network = None,
      provider = provider (getState s), error = None\<rparr> \<and>
   emitted (snd (disconnect s)) = emitted s @ [EvDisconnect] \<and>
   fst (disconnect (snd (disconnect s))) = Inr () \<and>
   snd (disconnect (snd (disconnect s))) =
     (snd (disconnect s))\<lparr>emitted := emitted s @ [EvDisconnect, EvDisconnect]\<rparr>"
  by (simp add: disconnect_def emit_other updateState_def spread_def no_updates_def getState_def)

theorem disconnect_resets_and_is_idempotent_witness:
  "status (getState ex_connected) = CONNECTED \<and>
   fst (disconnect ex_connected) = Inr () \<and>
   web3Provider (snd (disconnect ex_connected)) = None \<and>
   getState (snd (disconnect ex_connected)) =
     \<lparr>status = DISCONNECTED, account = None, network = None,
      provider = Some KAIKAS, error = None\<rparr> \<and>
   emitted (snd (disconnect ex_connected)) = [EvConnect ex_account, EvDisconnect] \<and>
   getState (snd (disconnect (snd (disconnect ex_connected)))) =
     getState (snd (disconnect ex_connected))"
  using disconnect_resets_and_is_idempotent [of ex_connected] ex_connected_fields
  by (simp add: getState_def)




text \<open>
  C3. A backend constructed while its provider is available has its native listeners
  installed, whatever has happened to it since. When the provider then fires
  \<open>accountsChanged\<close> with an empty list, the backend ends \<open>Disconnected\<close> with account and
  network null and without a handle, and it has emitted \<open>accountsChanged\<close> and then
  \<open>disconnect\<close>.
\<close>

theorem empty_accountsChanged_disconnects:
  assumes "isAvailable env (new_KaiaWalletService env p)"
      and "svc_step\<^sup>*\<^sup>* (new_KaiaWalletService env p) s"
  shows "status (getState (provider_emits (NativeAccountsChanged []) s)) = DISCONNECTED \<and>
         account (getState (provider_emits (NativeAccountsChanged []) s)) = None \<and>
         network (getState (provider_emits (NativeAccountsChanged []) s)) = None \<and>
         web3Provider (provider_emits (NativeAccountsChanged []) s) = None \<and>
         emitted (provider_emits (NativeAccountsChanged []) s) =
           emitted s @ [EvAccountsChanged [], EvDisconnect]"
proof -
  from assms(1) have "subscribed (new_KaiaWalletService env p)"
    by (simp add: new_KaiaWalletService_fields)
  with assms(2) have "subscribed s" by (simp add: subscribed_steps)
  then show ?thesis
    by (simp add: provider_emits_def on_accountsChanged_empty disconnect_fields getState_def
          snd_emit)
qed

theorem empty_accountsChanged_disconnects_witness:
  "isAvailable ex_env_ok (new_KaiaWalletService ex_env_ok KAIKAS) \<and>
   fst (connect ex_env_ok (new_KaiaWalletService ex_env_ok KAIKAS)) = Inr ex_account \<and>
   status (getState ex_connected) = CONNECTED \<and>
   status (getState (provider_emits (NativeAccountsChanged []) ex_connected)) = DISCONNECTED \<and>
   emitted (provider_emits (NativeAccountsChanged []) ex_connected) =
     [EvConnect ex_account, EvAccountsChanged [], EvDisconnect]"
proof -
  have a: "isAvailable ex_env_ok (new_KaiaWalletService ex_env_ok KAIKAS)"
    using ex_backend_fields by (simp add: ex_backend_def)
  have s: "svc_step\<^sup>*\<^sup>* (new_KaiaWalletService ex_env_ok KAIKAS) ex_connected"
    unfolding ex_connected_def ex_backend_def
    by (rule r_into_rtranclp) (rule step_connect)
  show ?thesis
    using a empty_accountsChanged_disconnects [OF a s] ex_connect_result ex_connected_fields
    by (simp add: getState_def ex_backend_def)
qed


lemma ex_plain_rejected:
  "request ex_rejecting_plain EthRequestAccounts = Inl ex_plain_rejection \<and>
   \<not> instanceofError ex_plain_rejection \<and>
   message ex_plain_rejection = ''User rejected the request.'' \<and>
   getProvider ex_env_kaikas_rejects_plain ex_backend = Inr (Some ex_rejecting_plain) \<and>
   getProvider ex_env_kaikas_rejects_plain (on ex_backend EvnError 0) =
     Inr (Some ex_rejecting_plain) \<and>
   isAvailable ex_env_kaikas_rejects_plain (on ex_backend EvnError 0) \<and>
   listenerCount ex_backend EvnError = 0 \<and>
   listenerCount (on ex_backend EvnError 0) EvnError = 1 \<and>
   emitted (on ex_backend EvnError 0) = []"
  using ex_backend_fields
  by (simp add: ex_rejecting_plain_def ex_plain_rejection_def ex_rejection_def getProvider_def
        isAvailable_def on_def listenerCount_def example_defs)

text \<open>
  C4, as the specification states it, fails twice. When the query of the active network
  fails, \<open>connect()\<close> resolves with the account, and the backend is \<open>Connected\<close> with no
  network. And when the wallet rejects the request for the accounts with a plain object
  and nobody listens to \<open>error\<close>, the caller does not receive that rejection but the
  emitter's error about it.
\<close>

theorem connect_network_failure_counterexample:
  "w3_getNetwork (new_Web3Provider ex_env_no_network ex_granting) =
     Inl (new_Error ''network query failed'') \<and>
   fst (connect ex_env_no_network (new_KaiaWalletService ex_env_no_network KAIKAS)) =
     Inr \<lparr>address = ''0xABC'', balance = ''1000000000000000000''\<rparr> \<and>
   status (getState (snd (connect ex_env_no_network
     (new_KaiaWalletService ex_env_no_network KAIKAS)))) = CONNECTED \<and>
   network (getState (snd (connect ex_env_no_network
     (new_KaiaWalletService ex_env_no_network KAIKAS)))) = None \<and>
   emitted (snd (connect ex_env_no_network
     (new_KaiaWalletService ex_env_no_network KAIKAS))) =
     [EvConnect \<lparr>address = ''0xABC'', balance = ''1000000000000000000''\<rparr>] \<and>
   request ex_rejecting_plain EthRequestAccounts = Inl ex_plain_rejection \<and>
   listeners (new_KaiaWalletService ex_env_ok KAIKAS) = [] \<and>
   fst (connect ex_env_kaikas_rejects_plain (new_KaiaWalletService ex_env_ok KAIKAS)) =
     Inl (unhandled_error ex_plain_rejection) \<and>
   unhandled_error ex_plain_rejection \<noteq> ex_plain_rejection"
proof -
  have n: "w3_getNetwork (new_Web3Provider ex_env_no_network ex_granting) =
       Inl (new_Error ''network query failed'') \<and>
     fst (connect ex_env_no_network (new_KaiaWalletService ex_env_no_network KAIKAS)) =
       Inr \<lparr>address = ''0xABC'', balance = ''1000000000000000000''\<rparr> \<and>
     status (getState (snd (connect ex_env_no_network
       (new_KaiaWalletService ex_env_no_network KAIKAS)))) = CONNECTED \<and>
     network (getState (snd (connect ex_env_no_network
       (new_KaiaWalletService ex_env_no_network KAIKAS)))) = None \<and>
     emitted (snd (connect ex_env_no_network
       (new_KaiaWalletService ex_env_no_network KAIKAS))) =
       [EvConnect \<lparr>address = ''0xABC'', balance = ''1000000000000000000''\<rparr>]"
    by (simp add: ex_env_no_network_def backend_defs example_defs print_defs)
  have u: "fst (connect ex_env_kaikas_rejects_plain ex_backend) =
      Inl (unhandled_error ex_plain_rejection)"
    using ex_backend_fields ex_plain_rejected
      connect_request_rejected
        [of ex_env_kaikas_rejects_plain ex_backend ex_rejecting_plain ex_plain_rejection]
    by (simp add: rethrown_def)
  have d: "unhandled_error ex_plain_rejection \<noteq> ex_plain_rejection"
    using ex_plain_rejected by (simp add: unhandled_error_differs)
  from n u d ex_plain_rejected ex_backend_fields show ?thesis
    by (simp add: ex_backend_def)
qed

text \<open>
  C4, amended. \<open>connect()\<close> fails with \<open>NotInstalled\<close>, the fields untouched, when
  \<open>isAvailable()\<close> is false. Every other failure of \<open>connect()\<close> is a failure \<open>e\<close> of
  its \<open>try\<close> block: the rejection of the request for the accounts, a failing or empty
  list of accounts, or a failing balance query (wrapped by \<open>getBalance\<close>). It leaves the
  status \<open>Error\<close> with the message of \<open>e\<close>, and \<open>emit('error', e)\<close> is called. The
  caller receives \<open>e\<close> itself when somebody listens to \<open>error\<close> or \<open>e\<close> is an instance
  of \<open>Error\<close>, as the errors for no account and for the balance are; with no listener and
  a rejection that is a plain object, the caller receives the emitter's error about the
  unhandled \<open>e\<close> instead. A failing network query is no failure of \<open>connect()\<close>: the
  backend is \<open>Connected\<close>, its network null.
\<close>

theorem connect_failure_reaches_state_event_and_caller:
  "(\<not> isAvailable env s \<longrightarrow>
      connect env s =
        (Inl (new_Error (providerName (walletProvider s) @ MSG_NOT_INSTALLED)), s)) \<and>
   (isAvailable env s \<and> connect env s = (Inl t, s') \<longrightarrow>
      (\<exists>e. fst (connect_try env s) = Inl e \<and>
           status (getState s') = ERROR \<and> error (getState s') = Some (message e) \<and>
           emitted s' = emitted s @ [EvError e] \<and>
           t = rethrown s e)) \<and>
   (0 < listenerCount s EvnError \<or> instanceofError e \<longrightarrow> rethrown s e = e) \<and>
   (listenerCount s EvnError = 0 \<and> \<not> instanceofError e \<longrightarrow>
      rethrown s e = unhandled_error e \<and> unhandled_error e \<noteq> e) \<and>
   (isAvailable env s \<and> getProvider env s = Inr (Some p) \<and>
    request p EthRequestAccounts = Inl e \<longrightarrow>
      fst (connect_try env s) = Inl e \<and> fst (connect env s) = Inl (rethrown s e)) \<and>
   (isAvailable env s \<and> getProvider env s = Inr (Some p) \<and>
    request p EthRequestAccounts = Inr () \<and>
    w3_listAccounts (new_Web3Provider env p) = Inl e \<longrightarrow>
      fst (connect_try env s) = Inl e \<and> fst (connect env s) = Inl (rethrown s e)) \<and>
   (isAvailable env s \<and> getProvider env s = Inr (Some p) \<and>
    request p EthRequestAccounts = Inr () \<and>
    (w3_listAccounts (new_Web3Provider env p) = Inr None \<or>
     w3_listAccounts (new_Web3Provider env p) = Inr (Some [])) \<longrightarrow>
      fst (connect env s) = Inl (new_Error MSG_NO_ACCOUNT)) \<and>
   (isAvailable env s \<and> getProvider env s = Inr (Some p) \<and>
    request p EthRequestAccounts = Inr () \<and>
    w3_listAccounts (new_Web3Provider env p) = Inr (Some (a # as)) \<and>
    w3_getBalance (new_Web3Provider env p) (entry_address a) = Inl e \<longrightarrow>
      fst (connect env s) = Inl (new_Error (MSG_BALANCE_FAILED @ message e))) \<and>
   (isAvailable env s \<and> getProvider env s = Inr (Some p) \<and>
    request p EthRequestAccounts = Inr () \<and>
    w3_listAccounts (new_Web3Provider env p) = Inr (Some (a # as)) \<and>
    w3_getBalance (new_Web3Provider env p) (entry_address a) = Inr n \<and>
    w3_getNetwork (new_Web3Provider env p) = Inl e \<longrightarrow>
      fst (connect env s) = Inr \<lparr>address = entry_address a, balance = int_toString 10 n\<rparr> \<and>
      status (getState (snd (connect env s))) = CONNECTED \<and>
      network (getState (snd (connect env s))) = None)"
proof (intro conjI impI)
  assume "\<not> isAvailable env s"
  then show "connect env s =
      (Inl (new_Error (providerName (walletProvider s) @ MSG_NOT_INSTALLED)), s)"
    by (rule connect_unavailable)
next
  assume a: "isAvailable env s \<and> connect env s = (Inl t, s')"
  then obtain e0 where "fst (connect_try env s) = Inl e0 \<and>
      status (state s') = ERROR \<and> error (state s') = Some (message e0) \<and>
      emitted s' = emitted s @ [EvError e0] \<and> t = rethrown s e0"
    using connect_failed [of env s t s'] by auto
  then show "\<exists>e. fst (connect_try env s) = Inl e \<and>
      status (getState s') = ERROR \<and> error (getState s') = Some (message e) \<and>
      emitted s' = emitted s @ [EvError e] \<and> t = rethrown s e"
    by (auto simp: getState_def)
next
  assume "0 < listenerCount s EvnError \<or> instanceofError e"
  then show "rethrown s e = e" by (auto simp: rethrown_def)
next
  assume "listenerCount s EvnError = 0 \<and> \<not> instanceofError e"
  then show "rethrown s e = unhandled_error e" by (simp add: rethrown_def)
next
  assume "listenerCount s EvnError = 0 \<and> \<not> instanceofError e"
  then show "unhandled_error e \<noteq> e" by (simp add: unhandled_error_differs)
next
  assume h: "isAvailable env s \<and> getProvider env s = Inr (Some p) \<and>
    request p EthRequestAccounts = Inl e"
  then show "fst (connect_try env s) = Inl e"
    by (simp add: connect_request_rejected)
  from h show "fst (connect env s) = Inl (rethrown s e)"
    by (simp add: connect_request_rejected)
next
  assume h: "isAvailable env s \<and> getProvider env s = Inr (Some p) \<and>
    request p EthRequestAccounts = Inr () \<and>
    w3_listAccounts (new_Web3Provider env p) = Inl e"
  then show "fst (connect_try env s) = Inl e"
    by (simp add: connect_try_outcome)
  from h show "fst (connect env s) = Inl (rethrown s e)"
    by (simp add: connect_after_request)
next
  assume "isAvailable env s \<and> getProvider env s = Inr (Some p) \<and>
    request p EthRequestAccounts = Inr () \<and>
    (w3_listAccounts (new_Web3Provider env p) = Inr None \<or>
     w3_listAccounts (new_Web3Provider env p) = Inr (Some []))"
  then show "fst (connect env s) = Inl (new_Error MSG_NO_ACCOUNT)"
    by (auto simp: connect_after_request)
next
  assume "isAvailable env s \<and> getProvider env s = Inr (Some p) \<and>
    request p EthRequestAccounts = Inr () \<and>
    w3_listAccounts (new_Web3Provider env p) = Inr (Some (a # as)) \<and>
    w3_getBalance (new_Web3Provider env p) (entry_address a) = Inl e"
  then show "fst (connect env s) = Inl (new_Error (MSG_BALANCE_FAILED @ message e))"
    by (simp add: connect_after_request)
next
  assume h: "isAvailable env s \<and> getProvider env s = Inr (Some p) \<and>
    request p EthRequestAccounts = Inr () \<and>
    w3_listAccounts (new_Web3Provider env p) = Inr (Some (a # as)) \<and>
    w3_getBalance (new_Web3Provider env p) (entry_address a) = Inr n \<and>
    w3_getNetwork (new_Web3Provider env p) = Inl e"
  then have r: "fst (connect env s) =
      Inr \<lparr>address = entry_address a, balance = int_toString 10 n\<rparr>"
    by (simp add: connect_after_request)
  then have c: "connect env s =
      (Inr \<lparr>address = entry_address a, balance = int_toString 10 n\<rparr>, snd (connect env s))"
    by (simp add: prod_eq_iff)
  from r show "fst (connect env s) =
      Inr \<lparr>address = entry_address a, balance = int_toString 10 n\<rparr>" .
  from connect_Inr [OF c] show "status (getState (snd (connect env s))) = CONNECTED"
    by (simp add: getState_def)
  from connect_network_of_handle [OF c] h
  show "network (getState (snd (connect env s))) = None"
    by (simp add: getState_def)
qed

theorem connect_failure_reaches_state_event_and_caller_witness:
  "isAvailable ex_env_kaikas_rejects_plain ex_backend \<and>
   getProvider ex_env_kaikas_rejects_plain ex_backend = Inr (Some ex_rejecting_plain) \<and>
   request ex_rejecting_plain EthRequestAccounts = Inl ex_plain_rejection \<and>
   listenerCount ex_backend EvnError = 0 \<and> \<not> instanceofError ex_plain_rejection \<and>
   fst (connect ex_env_kaikas_rejects_plain ex_backend) =
     Inl (unhandled_error ex_plain_rejection) \<and>
   status (getState (snd (connect ex_env_kaikas_rejects_plain ex_backend))) = ERROR \<and>
   error (getState (snd (connect ex_env_kaikas_rejects_plain ex_backend))) =
     Some ''User rejected the request.'' \<and>
   emitted (snd (connect ex_env_kaikas_rejects_plain ex_backend)) =
     [EvError ex_plain_rejection] \<and>
   listenerCount (on ex_backend EvnError 0) EvnError = 1 \<and>
   fst (connect ex_env_kaikas_rejects_plain (on ex_backend EvnError 0)) =
     Inl ex_plain_rejection"
proof -
  note t = connect_failure_reaches_state_event_and_caller
    [of ex_env_kaikas_rejects_plain ex_backend "unhandled_error ex_plain_rejection"
       "snd (connect ex_env_kaikas_rejects_plain ex_backend)" ex_plain_rejection
       ex_rejecting_plain]
  note t1 = connect_failure_reaches_state_event_and_caller
    [of ex_env_kaikas_rejects_plain "on ex_backend EvnError 0" ex_plain_rejection
       "snd (connect ex_env_kaikas_rejects_plain (on ex_backend EvnError 0))"
       ex_plain_rejection ex_rejecting_plain]
  note failure = t [THEN conjunct2, THEN conjunct1]
  note unheard = t [THEN conjunct2, THEN conjunct2, THEN conjunct2, THEN conjunct1]
  note rejected =
    t [THEN conjunct2, THEN conjunct2, THEN conjunct2, THEN conjunct2, THEN conjunct1]
  note heard = t1 [THEN conjunct2, THEN conjunct2, THEN conjunct1]
  note rejected1 =
    t1 [THEN conjunct2, THEN conjunct2, THEN conjunct2, THEN conjunct2, THEN conjunct1]
  have a: "isAvailable ex_env_kaikas_rejects_plain ex_backend"
    using ex_backend_fields by simp
  from unheard ex_plain_rejected
  have r: "rethrown ex_backend ex_plain_rejection = unhandled_error ex_plain_rejection"
    by simp
  from rejected a ex_plain_rejected
  have tr: "fst (connect_try ex_env_kaikas_rejects_plain ex_backend) = Inl ex_plain_rejection"
    and f: "fst (connect ex_env_kaikas_rejects_plain ex_backend) =
      Inl (rethrown ex_backend ex_plain_rejection)"
    by simp_all
  from f r have c: "connect ex_env_kaikas_rejects_plain ex_backend =
      (Inl (unhandled_error ex_plain_rejection),
       snd (connect ex_env_kaikas_rejects_plain ex_backend))"
    by (simp add: prod_eq_iff)
  from failure a c obtain e where e:
    "fst (connect_try ex_env_kaikas_rejects_plain ex_backend) = Inl e"
    "status (getState (snd (connect ex_env_kaikas_rejects_plain ex_backend))) = ERROR"
    "error (getState (snd (connect ex_env_kaikas_rejects_plain ex_backend))) = Some (message e)"
    "emitted (snd (connect ex_env_kaikas_rejects_plain ex_backend)) =
       emitted ex_backend @ [EvError e]"
    by blast
  from e(1) tr have "e = ex_plain_rejection" by simp
  with e ex_plain_rejected ex_backend_fields
  have st: "status (getState (snd (connect ex_env_kaikas_rejects_plain ex_backend))) = ERROR \<and>
    error (getState (snd (connect ex_env_kaikas_rejects_plain ex_backend))) =
      Some ''User rejected the request.'' \<and>
    emitted (snd (connect ex_env_kaikas_rejects_plain ex_backend)) =
      [EvError ex_plain_rejection]"
    by simp
  from heard ex_plain_rejected
  have h: "rethrown (on ex_backend EvnError 0) ex_plain_rejection = ex_plain_rejection"
    by simp
  from rejected1 ex_plain_rejected
  have "fst (connect ex_env_kaikas_rejects_plain (on ex_backend EvnError 0)) =
      Inl (rethrown (on ex_backend EvnError 0) ex_plain_rejection)"
    by simp
  with h have l: "fst (connect ex_env_kaikas_rejects_plain (on ex_backend EvnError 0)) =
      Inl ex_plain_rejection"
    by simp
  from a ex_plain_rejected f r st l show ?thesis by simp
qed

text \<open>
  C8, as the specification states it, fails for the missing account: with no address
  given and no account in the session, \<open>getBalance\<close> throws the error of its \<open>catch\<close>
  block, whose message is the \<open>NoAccount\<close> message behind the prefix of a failed balance
  query. The backend here holds a handle after a \<open>connect()\<close> that found no account.
\<close>

theorem getBalance_no_account_counterexample:
  "web3Provider (snd (connect ex_env_no_accounts
      (new_KaiaWalletService ex_env_no_accounts KAIKAS))) = Some ex_web3_no_accounts \<and>
   w3_listAccounts ex_web3_no_accounts = Inr (Some []) \<and>
   getBalance (snd (connect ex_env_no_accounts
      (new_KaiaWalletService ex_env_no_accounts KAIKAS))) None =
     Inl (new_Error (MSG_BALANCE_FAILED @ MSG_NO_ACCOUNT)) \<and>
   getBalance (snd (connect ex_env_no_accounts
      (new_KaiaWalletService ex_env_no_accounts KAIKAS))) None \<noteq>
     Inl (new_Error MSG_NO_ACCOUNT)"
proof -
  have h: "web3Provider (snd (connect ex_env_no_accounts
      (new_KaiaWalletService ex_env_no_accounts KAIKAS))) = Some ex_web3_no_accounts"
    by (simp add: ex_env_no_accounts_def backend_defs example_defs)
  have l: "w3_listAccounts ex_web3_no_accounts = Inr (Some [])"
    by (simp add: example_defs)
  have "MSG_BALANCE_FAILED @ MSG_NO_ACCOUNT \<noteq> MSG_NO_ACCOUNT"
    by (simp add: MSG_BALANCE_FAILED_def)
  with h l show ?thesis
    by (simp add: getBalance_def getBalance_try_def new_Error_def)
qed

text \<open>
  C8, amended. \<open>getBalance(address?)\<close> fails with \<open>NotConnected\<close> when the backend holds
  no provider handle, which is the case whenever its status is \<open>Disconnected\<close>. With the
  address omitted (or empty) it asks for the balance of the first account of the session;
  when the session has no account it fails with the error of a failed balance query whose
  message ends in the \<open>NoAccount\<close> message. On success it returns the balance the
  chain-query client answered, printed in decimal.
\<close>

theorem getBalance_outcomes:
  "(web3Provider s = None \<longrightarrow> getBalance s addr = Inl (new_Error MSG_NOT_CONNECTED)) \<and>
   (reachable s \<and> status (getState s) = DISCONNECTED \<longrightarrow>
      getBalance s addr = Inl (new_Error MSG_NOT_CONNECTED)) \<and>
   (web3Provider s = Some h \<and> (addr = None \<or> addr = Some []) \<and>
    (w3_listAccounts h = Inr None \<or> w3_listAccounts h = Inr (Some [])) \<longrightarrow>
      getBalance s addr = Inl (new_Error (MSG_BALANCE_FAILED @ MSG_NO_ACCOUNT))) \<and>
   (web3Provider s = Some h \<and> (addr = None \<or> addr = Some []) \<and>
    w3_listAccounts h = Inr (Some (a # as)) \<and> w3_getBalance h (entry_address a) = Inr n \<longrightarrow>
      getBalance s addr = Inr (int_toString 10 n)) \<and>
   (web3Provider s = Some h \<and> addr = Some (c # cs) \<and> w3_getBalance h (c # cs) = Inr n \<longrightarrow>
      getBalance s addr = Inr (int_toString 10 n)) \<and>
   (getBalance s addr = Inr b \<longrightarrow> decimal_string b)"
proof (intro conjI impI)
  assume "web3Provider s = None"
  then show "getBalance s addr = Inl (new_Error MSG_NOT_CONNECTED)"
    by (simp add: getBalance_def)
next
  assume "reachable s \<and> status (getState s) = DISCONNECTED"
  then have "web3Provider s = None"
    using reachable_backend_inv [of s] by (simp add: backend_inv_def getState_def)
  then show "getBalance s addr = Inl (new_Error MSG_NOT_CONNECTED)"
    by (simp add: getBalance_def)
next
  assume "web3Provider s = Some h \<and> (addr = None \<or> addr = Some []) \<and>
    (w3_listAccounts h = Inr None \<or> w3_listAccounts h = Inr (Some []))"
  then show "getBalance s addr = Inl (new_Error (MSG_BALANCE_FAILED @ MSG_NO_ACCOUNT))"
    by (auto simp: getBalance_def getBalance_try_def new_Error_def)
next
  assume "web3Provider s = Some h \<and> (addr = None \<or> addr = Some []) \<and>
    w3_listAccounts h = Inr (Some (a # as)) \<and> w3_getBalance h (entry_address a) = Inr n"
  then show "getBalance s addr = Inr (int_toString 10 n)"
    by (auto simp: getBalance_def getBalance_try_first_account)
next
  assume "web3Provider s = Some h \<and> addr = Some (c # cs) \<and> w3_getBalance h (c # cs) = Inr n"
  then show "getBalance s addr = Inr (int_toString 10 n)"
    by (simp add: getBalance_def getBalance_try_given)
next
  assume "getBalance s addr = Inr b"
  then show "decimal_string b"
    by (auto simp: getBalance_def getBalance_try_decimal split: option.splits sum.splits)
qed

theorem getBalance_outcomes_witness:
  "reachable ex_backend \<and> status (getState ex_backend) = DISCONNECTED \<and>
   getBalance ex_backend None = Inl (new_Error MSG_NOT_CONNECTED) \<and>
   web3Provider ex_connected = Some ex_web3 \<and>
   w3_listAccounts ex_web3 = Inr (Some [AccountString ''0xABC'']) \<and>
   w3_getBalance ex_web3 (entry_address (AccountString ''0xABC'')) = Inr 1000000000000000000 \<and>
   getBalance ex_connected None = Inr ''1000000000000000000'' \<and>
   decimal_string ''1000000000000000000''"
proof -
  have d: "status (getState ex_backend) = DISCONNECTED"
    using ex_backend_fields by (simp add: getState_def initial_state_def)
  have p: "int_toString 10 1000000000000000000 = ''1000000000000000000''"
    by (simp add: print_defs)
  have w: "w3_listAccounts ex_web3 = Inr (Some [AccountString ''0xABC'']) \<and>
      w3_getBalance ex_web3 (entry_address (AccountString ''0xABC'')) = Inr 1000000000000000000"
    by (simp add: example_defs)
  show ?thesis
    using ex_reachable(1) d p w ex_connected_fields
      getBalance_outcomes [of ex_backend None ex_web3 "AccountString ''0xABC''" "[]"
        1000000000000000000 "CHR ''0''" "[]" "''1000000000000000000''"]
      getBalance_outcomes [of ex_connected None ex_web3 "AccountString ''0xABC''" "[]"
        1000000000000000000 "CHR ''0''" "[]" "''1000000000000000000''"]
    by simp
qed




subsection \<open>Switching the network\<close>

lemma getNetworkByChainId_registered:
  "getNetworkByChainId c =
     (if c = 8217 then Some (snd (KAIA_NETWORKS ! 0))
      else if c = 1001 then Some (snd (KAIA_NETWORKS ! 1)) else None)"
  by (simp add: getNetworkByChainId_def KAIA_NETWORKS_def)

lemma getProvider_slot:
  "walletProvider s \<noteq> WALLET_CONNECT \<Longrightarrow> window env = Some w \<Longrightarrow>
   \<exists>prov. getProvider env s = Inr prov"
  by (cases "walletProvider s") (simp_all add: getProvider_def)

text \<open>
  C5, as the specification states it, fails on a backend whose kind has no injected
  provider: \<open>getProvider()\<close> is called first and throws, so an unregistered chain id is
  answered with the error of the unsupported wallet provider, not with
  \<open>UnsupportedNetwork\<close>.
\<close>

theorem switchNetwork_unregistered_counterexample:
  "getNetworkByChainId 999999 = None \<and>
   switchNetwork ex_env_ok (new_KaiaWalletService ex_env_ok WALLET_CONNECT) 999999 =
     (Inl (new_Error (MSG_UNSUPPORTED_WALLET_PROVIDER @ ''walletconnect'')), []) \<and>
   fst (switchNetwork ex_env_ok (new_KaiaWalletService ex_env_ok WALLET_CONNECT) 999999) \<noteq>
     Inl (new_Error (MSG_UNSUPPORTED_NETWORK @ ''999999''))"
  by (simp add: switchNetwork_def getNetworkByChainId_registered backend_defs example_defs
        MSG_UNSUPPORTED_WALLET_PROVIDER_def MSG_UNSUPPORTED_NETWORK_def)

text \<open>
  C5, amended. On a Kaikas or MetaMask backend, with the global \<open>window\<close> present,
  \<open>switchNetwork(chainId)\<close> fails with \<open>UnsupportedNetwork\<close>, no request having reached
  the provider, when the chain id is not in the registry (999999 is not). On any backend
  on which \<open>getProvider()\<close> throws, that error is thrown, again with no request. With the
  provider object present and the chain id registered, the switch request is sent; when it
  is rejected with code 4902 the add-chain request built from the registry entry follows
  and its outcome is the outcome; any other rejection is thrown as it is.
\<close>

theorem switchNetwork_outcomes:
  "(walletProvider s \<noteq> WALLET_CONNECT \<and> window env = Some w \<and>
    getNetworkByChainId c = None \<longrightarrow>
      switchNetwork env s c =
        (Inl (new_Error (MSG_UNSUPPORTED_NETWORK @ int_toString 10 c)), [])) \<and>
   getNetworkByChainId 999999 = None \<and>
   (getProvider env s = Inl e \<longrightarrow> switchNetwork env s c = (Inl e, [])) \<and>
   (getProvider env s = Inr (Some p) \<and> getNetworkByChainId c = Some net \<longrightarrow>
      (request p (WalletSwitchEthereumChain (hexChainId c)) = Inr () \<longrightarrow>
         switchNetwork env s c = (Inr (), [WalletSwitchEthereumChain (hexChainId c)])) \<and>
      (request p (WalletSwitchEthereumChain (hexChainId c)) = Inl e \<and> code e = Some 4902 \<longrightarrow>
         switchNetwork env s c =
           (request p (WalletAddEthereumChain (addChainParameter c net)),
            [WalletSwitchEthereumChain (hexChainId c),
             WalletAddEthereumChain (addChainParameter c net)])) \<and>
      (request p (WalletSwitchEthereumChain (hexChainId c)) = Inl e \<and> code e \<noteq> Some 4902 \<longrightarrow>
         switchNetwork env s c = (Inl e, [WalletSwitchEthereumChain (hexChainId c)])))"
proof (intro conjI impI)
  assume a: "walletProvider s \<noteq> WALLET_CONNECT \<and> window env = Some w \<and>
    getNetworkByChainId c = None"
  then obtain prov where "getProvider env s = Inr prov"
    using getProvider_slot [of s env w] by blast
  with a show "switchNetwork env s c =
      (Inl (new_Error (MSG_UNSUPPORTED_NETWORK @ int_toString 10 c)), [])"
    by (simp add: switchNetwork_def)
next
  show "getNetworkByChainId 999999 = None"
    by (simp add: getNetworkByChainId_registered)
next
  assume "getProvider env s = Inl e"
  then show "switchNetwork env s c = (Inl e, [])"
    by (simp add: switchNetwork_def)
next
  assume "getProvider env s = Inr (Some p) \<and> getNetworkByChainId c = Some net"
    and "request p (WalletSwitchEthereumChain (hexChainId c)) = Inr ()"
  then show "switchNetwork env s c = (Inr (), [WalletSwitchEthereumChain (hexChainId c)])"
    by (simp add: switchNetwork_def provider_request_def)
next
  assume "getProvider env s = Inr (Some p) \<and> getNetworkByChainId c = Some net"
    and "request p (WalletSwitchEthereumChain (hexChainId c)) = Inl e \<and> code e = Some 4902"
  then show "switchNetwork env s c =
      (request p (WalletAddEthereumChain (addChainParameter c net)),
       [WalletSwitchEthereumChain (hexChainId c),
        WalletAddEthereumChain (addChainParameter c net)])"
    by (simp add: switchNetwork_def provider_request_def)
next
  assume "getProvider env s = Inr (Some p) \<and> getNetworkByChainId c = Some net"
    and "request p (WalletSwitchEthereumChain (hexChainId c)) = Inl e \<and> code e \<noteq> Some 4902"
  then show "switchNetwork env s c = (Inl e, [WalletSwitchEthereumChain (hexChainId c)])"
    by (simp add: switchNetwork_def provider_request_def)
qed

theorem switchNetwork_outcomes_witness:
  "walletProvider ex_backend \<noteq> WALLET_CONNECT \<and>
   getProvider (ex_env (Some ex_unknown_chain) None ex_web3) ex_backend =
     Inr (Some ex_unknown_chain) \<and>
   switchNetwork (ex_env (Some ex_unknown_chain) None ex_web3) ex_backend 999999 =
     (Inl (new_Error (MSG_UNSUPPORTED_NETWORK @ ''999999'')), []) \<and>
   request ex_unknown_chain (WalletSwitchEthereumChain ''0x3e9'') =
     Inl ex_unknown_chain_error \<and>
   switchNetwork (ex_env (Some ex_unknown_chain) None ex_web3) ex_backend 1001 =
     (Inr (),
      [WalletSwitchEthereumChain ''0x3e9'',
       WalletAddEthereumChain
         \<lparr>ac_chainId = ''0x3e9'', ac_chainName = ''Kaia Testnet Kairos'',
          ac_rpcUrls = [''https://public-en-kairos.node.kaia.io''],
          ac_blockExplorerUrls = Some [''https://kairos.kaiascan.io'']\<rparr>])"
proof -
  have k: "walletProvider ex_backend \<noteq> WALLET_CONNECT"
    using ex_backend_fields by simp
  have g: "getProvider (ex_env (Some ex_unknown_chain) None ex_web3) ex_backend =
      Inr (Some ex_unknown_chain)"
    using ex_backend_fields by (simp add: getProvider_def ex_env_def)
  have w: "window (ex_env (Some ex_unknown_chain) None ex_web3) =
      Some \<lparr>klaytn = Some ex_unknown_chain, ethereum = None\<rparr>"
    by (simp add: ex_env_def)
  have n: "getNetworkByChainId 999999 = None \<and>
      getNetworkByChainId 1001 = Some (snd (KAIA_NETWORKS ! 1))"
    by (simp add: getNetworkByChainId_registered)
  have h: "hexChainId 1001 = ''0x3e9'' \<and> int_toString 10 999999 = ''999999''"
    by (simp add: hexChainId_def print_defs)
  have r: "request ex_unknown_chain (WalletSwitchEthereumChain ''0x3e9'') =
      Inl ex_unknown_chain_error"
    by (simp add: ex_unknown_chain_def)
  have c: "code ex_unknown_chain_error = Some 4902"
    by (simp add: ex_unknown_chain_error_def)
  have a: "addChainParameter 1001 (snd (KAIA_NETWORKS ! 1)) =
      \<lparr>ac_chainId = ''0x3e9'', ac_chainName = ''Kaia Testnet Kairos'',
       ac_rpcUrls = [''https://public-en-kairos.node.kaia.io''],
       ac_blockExplorerUrls = Some [''https://kairos.kaiascan.io'']\<rparr>"
    using h by (simp add: addChainParameter_def KAIA_NETWORKS_def)
  have q: "request ex_unknown_chain (WalletAddEthereumChain
      (addChainParameter 1001 (snd (KAIA_NETWORKS ! 1)))) = Inr ()"
    by (simp add: ex_unknown_chain_def)
  show ?thesis
    using k g w n h r c a q
      switchNetwork_outcomes
        [of ex_backend "ex_env (Some ex_unknown_chain) None ex_web3"
           "\<lparr>klaytn = Some ex_unknown_chain, ethereum = None\<rparr>" 999999
           ex_unknown_chain_error
           ex_unknown_chain "snd (KAIA_NETWORKS ! 1)"]
      switchNetwork_outcomes
        [of ex_backend "ex_env (Some ex_unknown_chain) None ex_web3"
           "\<lparr>klaytn = Some ex_unknown_chain, ethereum = None\<rparr>" 1001
           ex_unknown_chain_error
           ex_unknown_chain "snd (KAIA_NETWORKS ! 1)"]
    by simp
qed


section \<open>Facts about the registry\<close>

lemma connect_keeps_kind: "walletProvider (snd (connect env s)) = walletProvider s"
proof (cases env s rule: connect_cases)
  case unavailable
  then show ?thesis by simp
next
  case (failed t)
  from connect_failed [OF this] show ?thesis by auto
next
  case (connected acct)
  from connect_Inr [OF this] show ?thesis by simp
qed

lemma deref_update:
  "deref (ad\<lparr>wallets := AList.update r wlt (wallets ad)\<rparr>) q =
     (if q = r then Some wlt else deref ad q)"
  by (simp add: deref_def update_conv')

lemma deref_currentWallet [simp]: "deref (ad\<lparr>currentWallet := x\<rparr>) q = deref ad q"
  by (simp add: deref_def)

lemma can_connect_currentWallet [simp]:
  "can_connect env (ad\<lparr>currentWallet := x\<rparr>) q = can_connect env ad q"
  by (simp add: can_connect_def)

lemma can_connect_update:
  assumes "deref ad r = Some wlt" and "walletProvider wlt' = walletProvider wlt"
  shows "can_connect env (ad\<lparr>wallets := AList.update r wlt' (wallets ad)\<rparr>) q =
         can_connect env ad q"
  using assms isAvailable_kind [OF assms(2), of env] connect_resolved_kind [OF assms(2), of env]
  by (simp add: can_connect_def deref_update)

lemma selectWallet_cases:
  "selectWallet env ad p =
     (case deref ad p of
        None \<Rightarrow> Inl (new_Error (MSG_UNSUPPORTED_WALLET @ providerName p))
      | Some wlt \<Rightarrow>
          if isAvailable env wlt then Inr (p, ad\<lparr>currentWallet := Some p\<rparr>)
          else Inl (new_Error (providerName p @ MSG_WALLET_UNAVAILABLE)))"
  by (simp add: selectWallet_def deref_def split: option.splits)

lemma can_connect_available:
  "can_connect env ad p \<Longrightarrow> p \<in> set (getAvailableWallets env ad)"
proof -
  assume "can_connect env ad p"
  then obtain wlt where w: "map_of (wallets ad) p = Some wlt" "isAvailable env wlt"
    by (auto simp: can_connect_def deref_def split: option.splits)
  then have "(p, wlt) \<in> set (wallets ad)" by (simp add: map_of_SomeD)
  with w show ?thesis
    by (force simp: getAvailableWallets_def)
qed

lemma autoConnect_loop_result:
  "fst (autoConnect_loop env avail ps ad) =
     find (\<lambda>p. p \<in> set avail \<and> can_connect env ad p) ps"
proof (induction ps arbitrary: ad)
  case Nil
  show ?case by simp
next
  case (Cons p ps)
  show ?case
  proof (cases "p \<in> set avail")
    case False
    then show ?thesis using Cons.IH [of ad] by simp
  next
    case True
    show ?thesis
    proof (cases "deref ad p")
      case None
      with True show ?thesis
        using Cons.IH [of ad] by (simp add: selectWallet_cases can_connect_def)
    next
      case (Some wlt)
      show ?thesis
      proof (cases "isAvailable env wlt")
        case False
        with True Some show ?thesis
          using Cons.IH [of ad] by (simp add: selectWallet_cases can_connect_def)
      next
        case av: True
        obtain res wlt' where c: "connect env wlt = (res, wlt')" by (cases "connect env wlt")
        then have k: "walletProvider wlt' = walletProvider wlt"
          using connect_keeps_kind [of env wlt] by simp
        let ?ad2 = "ad\<lparr>currentWallet := Some p,
                       wallets := AList.update p wlt' (wallets (ad\<lparr>currentWallet := Some p\<rparr>))\<rparr>"
        have same: "\<And>q. can_connect env ?ad2 q = can_connect env ad q"
          using can_connect_update [of "ad\<lparr>currentWallet := Some p\<rparr>" p wlt wlt' env] Some k
          by simp
        show ?thesis
        proof (cases res)
          case (Inl e)
          with True Some av c show ?thesis
            using Cons.IH [of ?ad2] same
            by (simp add: selectWallet_cases wallet_connect_def can_connect_def resolved_def)
        next
          case (Inr acct)
          with True Some av c show ?thesis
            by (simp add: selectWallet_cases wallet_connect_def can_connect_def resolved_def)
        qed
      qed
    qed
  qed
qed

lemma autoConnect_loop_connected:
  "fst (autoConnect_loop env avail ps ad) = Some r \<Longrightarrow>
   r \<in> set avail \<and> currentWallet (snd (autoConnect_loop env avail ps ad)) = Some r \<and>
   (\<exists>wlt. deref (snd (autoConnect_loop env avail ps ad)) r = Some wlt \<and>
          status (state wlt) = CONNECTED)"
proof (induction ps arbitrary: ad)
  case Nil
  then show ?case by simp
next
  case (Cons p ps)
  show ?case
  proof (cases "p \<in> set avail")
    case False
    then show ?thesis using Cons.IH [of ad] Cons.prems by simp
  next
    case True
    show ?thesis
    proof (cases "deref ad p")
      case None
      with True show ?thesis
        using Cons.IH [of ad] Cons.prems by (simp add: selectWallet_cases)
    next
      case (Some wlt)
      show ?thesis
      proof (cases "isAvailable env wlt")
        case False
        with True Some show ?thesis
          using Cons.IH [of ad] Cons.prems by (simp add: selectWallet_cases)
      next
        case av: True
        obtain res wlt' where c: "connect env wlt = (res, wlt')" by (cases "connect env wlt")
        let ?ad2 = "ad\<lparr>currentWallet := Some p,
                       wallets := AList.update p wlt' (wallets (ad\<lparr>currentWallet := Some p\<rparr>))\<rparr>"
        show ?thesis
        proof (cases res)
          case (Inl e)
          with True Some av c show ?thesis
            using Cons.IH [of ?ad2] Cons.prems
            by (simp add: selectWallet_cases wallet_connect_def)
        next
          case (Inr acct)
          with c have "status (state wlt') = CONNECTED"
            using connect_Inr [of env wlt acct wlt'] by simp
          with Inr True Some av c Cons.prems show ?thesis
            by (auto simp: selectWallet_cases wallet_connect_def deref_def update_conv')
        qed
      qed
    qed
  qed
qed

lemma update_present_keys:
  "map_of al k = Some v \<Longrightarrow> map fst (AList.update k v' al) = map fst al"
  by (simp add: update_keys domIff weak_map_of_SomeI map_of_eq_None_iff [symmetric])

lemma autoConnect_loop_keys:
  "map fst (wallets (snd (autoConnect_loop env avail ps ad))) = map fst (wallets ad)"
proof (induction ps arbitrary: ad)
  case Nil
  show ?case by simp
next
  case (Cons p ps)
  show ?case
  proof (cases "p \<in> set avail \<and> (\<exists>wlt. deref ad p = Some wlt \<and> isAvailable env wlt)")
    case False
    then show ?thesis
      using Cons.IH [of ad] by (auto simp: selectWallet_cases split: option.splits)
  next
    case True
    then obtain wlt where w: "deref ad p = Some wlt" "isAvailable env wlt" "p \<in> set avail"
      by blast
    obtain res wlt' where c: "connect env wlt = (res, wlt')" by (cases "connect env wlt")
    let ?ad2 = "ad\<lparr>currentWallet := Some p,
                   wallets := AList.update p wlt' (wallets (ad\<lparr>currentWallet := Some p\<rparr>))\<rparr>"
    have keys: "map fst (wallets ?ad2) = map fst (wallets ad)"
      using w(1) by (simp add: deref_def update_present_keys)
    show ?thesis
    proof (cases res)
      case (Inl e)
      with w c keys show ?thesis
        using Cons.IH [of ?ad2] by (simp add: selectWallet_cases wallet_connect_def)
    next
      case (Inr acct)
      with w c keys show ?thesis
        by (simp add: selectWallet_cases wallet_connect_def)
    qed
  qed
qed


lemma new_WalletAdapter_wallets:
  "wallets (new_WalletAdapter env) =
     [(KAIKAS, new_KaiaWalletService env KAIKAS), (METAMASK, new_KaiaWalletService env METAMASK)] \<and>
   currentWallet (new_WalletAdapter env) = None"
  by (simp add: new_WalletAdapter_def initializeWallets_def Let_def)

lemma autoConnect_keys:
  "map fst (wallets (snd (autoConnect env ad))) = map fst (wallets ad)"
  by (simp add: autoConnect_def Let_def autoConnect_loop_keys)

lemma disconnectAll_keys: "map fst (wallets (disconnectAll ad)) = map fst (wallets ad)"
  by (simp add: disconnectAll_def case_prod_beta comp_def)

lemma adapter_step_keys:
  "adapter_step ad ad' \<Longrightarrow> map fst (wallets ad') = map fst (wallets ad)"
proof (induction rule: adapter_step.induct)
  case (step_selectWallet env ad p r ad')
  then show ?case
    by (auto simp: selectWallet_cases split: option.splits if_splits)
next
  case (step_autoConnect ad env)
  show ?case by (rule autoConnect_keys)
next
  case (step_disconnectAll ad)
  show ?case by (rule disconnectAll_keys)
next
  case (step_backend ad r wlt wlt')
  then show ?case by (simp add: deref_def update_present_keys)
qed

lemma reachable_adapter_keys:
  "reachable_adapter ad \<Longrightarrow> map fst (wallets ad) = [KAIKAS, METAMASK]"
  by (induction rule: reachable_adapter.induct)
     (simp_all add: new_WalletAdapter_wallets adapter_step_keys)

lemma getWalletStates_fold_keys:
  "fst ` set (foldl (\<lambda>states (p, wlt). AList.update p (getState wlt) states) acc ws) =
     fst ` set acc \<union> fst ` set ws"
proof (induction ws arbitrary: acc)
  case Nil
  show ?case by simp
next
  case (Cons x ws)
  obtain p wlt where x: "x = (p, wlt)" by (cases x)
  have "fst ` set (foldl (\<lambda>states (p, wlt). AList.update p (getState wlt) states) acc (x # ws)) =
      fst ` set (AList.update p (getState wlt) acc) \<union> fst ` set ws"
    using Cons.IH [of "AList.update p (getState wlt) acc"] x by simp
  also have "\<dots> = ({p} \<union> fst ` set acc) \<union> fst ` set ws"
    by (simp only: dom_update)
  also have "\<dots> = fst ` set acc \<union> fst ` set (x # ws)"
    using x by auto
  finally show ?case .
qed

lemma getWalletStates_keys: "fst ` set (getWalletStates ad) = fst ` set (wallets ad)"
  by (simp add: getWalletStates_def getWalletStates_fold_keys)

lemma getAvailableWallets_keys:
  "set (getAvailableWallets env ad) \<subseteq> fst ` set (wallets ad)"
  by (auto simp: getAvailableWallets_def)

lemma find_none: "(\<And>x. x \<in> set xs \<Longrightarrow> \<not> P x) \<Longrightarrow> find P xs = None"
  by (induction xs) auto

lemma autoConnect_result:
  "fst (autoConnect env ad) = find (can_connect env ad) priority"
proof (cases "getAvailableWallets env ad = []")
  case True
  then have "\<And>p. \<not> can_connect env ad p"
    using can_connect_available [of env ad] by auto
  with True show ?thesis
    by (simp add: autoConnect_def find_none)
next
  case False
  have "(\<lambda>p. p \<in> set (getAvailableWallets env ad) \<and> can_connect env ad p) = can_connect env ad"
    using can_connect_available [of env ad] by auto
  with False show ?thesis
    by (simp add: autoConnect_def Let_def autoConnect_loop_result)
qed

lemma autoConnect_connected:
  assumes "fst (autoConnect env ad) = Some r"
  shows "r \<in> set (getAvailableWallets env ad) \<and>
         currentWallet (snd (autoConnect env ad)) = Some r \<and>
         (\<exists>wlt. deref (snd (autoConnect env ad)) r = Some wlt \<and> status (state wlt) = CONNECTED)"
proof (cases "getAvailableWallets env ad = []")
  case True
  with assms show ?thesis by (simp add: autoConnect_def)
next
  case False
  with assms show ?thesis
    using autoConnect_loop_connected [of env "getAvailableWallets env ad" priority ad r]
    by (simp add: autoConnect_def Let_def)
qed

lemma priority_order:
  "priority = pre @ hi # mid @ lo # post \<Longrightarrow>
   hi = KAIKAS \<and> lo = METAMASK \<or> hi = KAIKAS \<and> lo = WALLET_CONNECT \<or>
   hi = METAMASK \<and> lo = WALLET_CONNECT"
  by (auto simp: priority_def Cons_eq_append_conv)

section \<open>The claims about the registry\<close>

text \<open>
  C7. \<open>selectWallet(kind)\<close> fails with \<open>UnsupportedProvider\<close> when no backend is
  registered for the kind, and with \<open>Unavailable\<close> when the registered backend is not
  available. Otherwise it returns the reference to that backend and records it, so that
  \<open>getCurrentWallet()\<close> returns the same reference; the backends are untouched.
\<close>

theorem selectWallet_outcomes:
  "(deref ad p = None \<longrightarrow>
      selectWallet env ad p = Inl (new_Error (MSG_UNSUPPORTED_WALLET @ providerName p))) \<and>
   (deref ad p = Some wlt \<and> \<not> isAvailable env wlt \<longrightarrow>
      selectWallet env ad p = Inl (new_Error (providerName p @ MSG_WALLET_UNAVAILABLE))) \<and>
   (deref ad p = Some wlt \<and> isAvailable env wlt \<longrightarrow>
      selectWallet env ad p = Inr (p, ad\<lparr>currentWallet := Some p\<rparr>) \<and>
      getCurrentWallet (ad\<lparr>currentWallet := Some p\<rparr>) = Some p \<and>
      deref (ad\<lparr>currentWallet := Some p\<rparr>) p = Some wlt)"
  by (simp add: selectWallet_cases getCurrentWallet_def)

theorem selectWallet_outcomes_witness:
  "deref ex_adapter WALLET_CONNECT = None \<and>
   selectWallet ex_env_ok ex_adapter WALLET_CONNECT =
     Inl (new_Error (MSG_UNSUPPORTED_WALLET @ ''walletconnect'')) \<and>
   deref ex_adapter KAIKAS = Some ex_backend \<and>
   \<not> isAvailable ex_env_none ex_backend \<and>
   selectWallet ex_env_none ex_adapter KAIKAS =
     Inl (new_Error (''kaikas'' @ MSG_WALLET_UNAVAILABLE)) \<and>
   isAvailable ex_env_ok ex_backend \<and>
   selectWallet ex_env_ok ex_adapter KAIKAS = Inr (KAIKAS, ex_adapter\<lparr>currentWallet := Some KAIKAS\<rparr>) \<and>
   getCurrentWallet (ex_adapter\<lparr>currentWallet := Some KAIKAS\<rparr>) = Some KAIKAS"
proof -
  have d: "deref ex_adapter WALLET_CONNECT = None \<and> deref ex_adapter KAIKAS = Some ex_backend"
    by (simp add: deref_def ex_adapter_def new_WalletAdapter_wallets ex_backend_def)
  have n: "\<not> isAvailable ex_env_none ex_backend"
    using ex_backend_fields by (simp add: isAvailable_def example_defs)
  have a: "isAvailable ex_env_ok ex_backend"
    using ex_backend_fields by simp
  show ?thesis
    using d n a
      selectWallet_outcomes [of ex_adapter WALLET_CONNECT ex_env_ok ex_backend]
      selectWallet_outcomes [of ex_adapter KAIKAS ex_env_none ex_backend]
      selectWallet_outcomes [of ex_adapter KAIKAS ex_env_ok ex_backend]
    by simp
qed

text \<open>
  C2. \<open>autoConnect()\<close> returns the first kind of the priority list (Kaikas, MetaMask,
  WalletConnect) whose backend is registered and available and whose \<open>connect()\<close>
  succeeds, the failures before it being swallowed, and null when there is none; it
  cannot throw. With no wallet available it returns null and changes nothing. The backend
  it returns is available, is the current wallet, and is \<open>Connected\<close>. With two wallets
  available, the one earlier in the list failing to connect and the later one connecting,
  it returns the later one.
\<close>

theorem autoConnect_first_that_connects:
  "fst (autoConnect env ad) = find (can_connect env ad) priority \<and>
   priority = [KAIKAS, METAMASK, WALLET_CONNECT] \<and>
   (getAvailableWallets env ad = [] \<longrightarrow> autoConnect env ad = (None, ad)) \<and>
   ((\<forall>p \<in> set priority. \<not> can_connect env ad p) \<longrightarrow> fst (autoConnect env ad) = None) \<and>
   (fst (autoConnect env ad) = Some r \<longrightarrow>
      r \<in> set (getAvailableWallets env ad) \<and>
      getCurrentWallet (snd (autoConnect env ad)) = Some r \<and>
      (\<exists>wlt. deref (snd (autoConnect env ad)) r = Some wlt \<and>
             status (getState wlt) = CONNECTED)) \<and>
   (set (getAvailableWallets env ad) = {hi, lo} \<and> priority = pre @ hi # mid @ lo # post \<and>
    \<not> can_connect env ad hi \<and> can_connect env ad lo \<longrightarrow>
      fst (autoConnect env ad) = Some lo)"
proof (intro conjI impI)
  show "fst (autoConnect env ad) = find (can_connect env ad) priority"
    by (rule autoConnect_result)
next
  show "priority = [KAIKAS, METAMASK, WALLET_CONNECT]" by (simp add: priority_def)
next
  assume "getAvailableWallets env ad = []"
  then show "autoConnect env ad = (None, ad)" by (simp add: autoConnect_def)
next
  assume "\<forall>p \<in> set priority. \<not> can_connect env ad p"
  then have "find (can_connect env ad) priority = None"
    by (intro find_none) blast
  then show "fst (autoConnect env ad) = None"
    by (simp only: autoConnect_result)
next
  assume r: "fst (autoConnect env ad) = Some r"
  from autoConnect_connected [OF r]
  show "r \<in> set (getAvailableWallets env ad)" by simp
  from autoConnect_connected [OF r]
  show "getCurrentWallet (snd (autoConnect env ad)) = Some r"
    by (simp add: getCurrentWallet_def)
  from autoConnect_connected [OF r]
  show "\<exists>wlt. deref (snd (autoConnect env ad)) r = Some wlt \<and> status (getState wlt) = CONNECTED"
    by (simp add: getState_def)
next
  assume h: "set (getAvailableWallets env ad) = {hi, lo} \<and>
    priority = pre @ hi # mid @ lo # post \<and>
    \<not> can_connect env ad hi \<and> can_connect env ad lo"
  have nm: "\<not> can_connect env ad q" if "q \<noteq> hi" "q \<noteq> lo" for q
  proof
    assume "can_connect env ad q"
    then have "q \<in> set (getAvailableWallets env ad)" by (rule can_connect_available)
    with h that show False by simp
  qed
  from h have nh: "\<not> can_connect env ad hi" and cl: "can_connect env ad lo" by simp_all
  from h priority_order [of pre hi mid lo post]
  consider "hi = KAIKAS \<and> lo = METAMASK" | "hi = KAIKAS \<and> lo = WALLET_CONNECT"
    | "hi = METAMASK \<and> lo = WALLET_CONNECT" by blast
  then have "find (can_connect env ad) [KAIKAS, METAMASK, WALLET_CONNECT] = Some lo"
  proof cases
    case 1
    with nh cl show ?thesis by simp
  next
    case 2
    with nh cl nm [of METAMASK] show ?thesis by simp
  next
    case 3
    with nh cl nm [of KAIKAS] show ?thesis by simp
  qed
  then show "fst (autoConnect env ad) = Some lo"
    by (simp only: autoConnect_result priority_def)
qed

lemma ex_adapter_rejecting_can_connect:
  "getAvailableWallets ex_env_kaikas_rejects ex_adapter_rejecting = [KAIKAS, METAMASK] \<and>
   \<not> can_connect ex_env_kaikas_rejects ex_adapter_rejecting KAIKAS \<and>
   can_connect ex_env_kaikas_rejects ex_adapter_rejecting METAMASK"
proof -
  let ?k = "new_KaiaWalletService ex_env_kaikas_rejects KAIKAS"
  let ?m = "new_KaiaWalletService ex_env_kaikas_rejects METAMASK"
  have k: "isAvailable ex_env_kaikas_rejects ?k \<and>
      getProvider ex_env_kaikas_rejects ?k = Inr (Some ex_rejecting)"
    by (simp add: new_KaiaWalletService_fields isAvailable_def getProvider_def example_defs)
  have m: "isAvailable ex_env_kaikas_rejects ?m \<and>
      getProvider ex_env_kaikas_rejects ?m = Inr (Some ex_granting)"
    by (simp add: new_KaiaWalletService_fields isAvailable_def getProvider_def example_defs)
  have ck: "fst (connect ex_env_kaikas_rejects ?k) = Inl (rethrown ?k ex_rejection)"
    using k connect_request_rejected [of ex_env_kaikas_rejects ?k ex_rejecting ex_rejection]
    by (simp add: ex_rejecting_def)
  have cm: "fst (connect ex_env_kaikas_rejects ?m) = Inr ex_account"
    using m connect_after_request [of ex_env_kaikas_rejects ?m ex_granting]
    by (simp add: example_defs entry_address_def print_defs)
  show ?thesis
    using k m ck cm
    by (simp add: ex_adapter_rejecting_def getAvailableWallets_def new_WalletAdapter_wallets
          can_connect_def deref_def resolved_def)
qed

theorem autoConnect_first_that_connects_witness:
  "set (getAvailableWallets ex_env_kaikas_rejects ex_adapter_rejecting) = {KAIKAS, METAMASK} \<and>
   priority = [] @ KAIKAS # [] @ METAMASK # [WALLET_CONNECT] \<and>
   \<not> can_connect ex_env_kaikas_rejects ex_adapter_rejecting KAIKAS \<and>
   can_connect ex_env_kaikas_rejects ex_adapter_rejecting METAMASK \<and>
   fst (autoConnect ex_env_kaikas_rejects ex_adapter_rejecting) = Some METAMASK \<and>
   (\<exists>wlt. deref (snd (autoConnect ex_env_kaikas_rejects ex_adapter_rejecting)) METAMASK = Some wlt \<and>
          status (getState wlt) = CONNECTED) \<and>
   getAvailableWallets ex_env_none ex_adapter = [] \<and>
   autoConnect ex_env_none ex_adapter = (None, ex_adapter)"
proof -
  note t0 = autoConnect_first_that_connects
    [of ex_env_none ex_adapter METAMASK KAIKAS METAMASK "[]" "[]" "[WALLET_CONNECT]"]
  have n: "getAvailableWallets ex_env_none ex_adapter = []"
    by (simp add: getAvailableWallets_def ex_adapter_def new_WalletAdapter_wallets
          new_KaiaWalletService_fields isAvailable_def example_defs)
  from t0 n have z: "autoConnect ex_env_none ex_adapter = (None, ex_adapter)"
    by blast
  note t = autoConnect_first_that_connects
    [of ex_env_kaikas_rejects ex_adapter_rejecting METAMASK KAIKAS METAMASK "[]" "[]"
       "[WALLET_CONNECT]"]
  have p: "priority = [] @ KAIKAS # [] @ METAMASK # [WALLET_CONNECT]"
    by (simp add: priority_def)
  have s: "set (getAvailableWallets ex_env_kaikas_rejects ex_adapter_rejecting) =
      {KAIKAS, METAMASK}"
    using ex_adapter_rejecting_can_connect by simp
  have k: "\<not> can_connect ex_env_kaikas_rejects ex_adapter_rejecting KAIKAS"
    and m: "can_connect ex_env_kaikas_rejects ex_adapter_rejecting METAMASK"
    using ex_adapter_rejecting_can_connect by blast+
  from t p s k m
  have r: "fst (autoConnect ex_env_kaikas_rejects ex_adapter_rejecting) = Some METAMASK"
    by blast
  from t r
  have c: "\<exists>wlt. deref (snd (autoConnect ex_env_kaikas_rejects ex_adapter_rejecting)) METAMASK =
      Some wlt \<and> status (getState wlt) = CONNECTED"
    by blast
  from p s k m r c n z show ?thesis by blast
qed

text \<open>
  C10. A registry holds backends for Kaikas and MetaMask only, whatever has happened to
  it. So \<open>selectWallet\<close> of the WalletConnect kind fails with \<open>UnsupportedProvider\<close>,
  neither \<open>getAvailableWallets()\<close> nor \<open>getWalletStates()\<close> contains that kind, and
  \<open>autoConnect()\<close> does not return it, although the priority list names it.
\<close>

theorem walletconnect_is_never_registered:
  "reachable_adapter ad \<Longrightarrow>
     map fst (wallets ad) = [KAIKAS, METAMASK] \<and>
     selectWallet env ad WALLET_CONNECT =
       Inl (new_Error (MSG_UNSUPPORTED_WALLET @ ''walletconnect'')) \<and>
     WALLET_CONNECT \<notin> set (getAvailableWallets env ad) \<and>
     WALLET_CONNECT \<notin> fst ` set (getWalletStates ad) \<and>
     fst (autoConnect env ad) \<noteq> Some WALLET_CONNECT \<and>
     WALLET_CONNECT \<in> set priority"
proof -
  assume "reachable_adapter ad"
  then have keys: "map fst (wallets ad) = [KAIKAS, METAMASK]"
    by (rule reachable_adapter_keys)
  then have dom: "fst ` set (wallets ad) = {KAIKAS, METAMASK}"
    by (metis list.set(1) list.set(2) set_map)
  then have none: "deref ad WALLET_CONNECT = None"
    by (simp add: deref_def map_of_eq_None_iff)
  have av: "WALLET_CONNECT \<notin> set (getAvailableWallets env ad)"
    using getAvailableWallets_keys [of env ad] dom by auto
  have "fst (autoConnect env ad) \<noteq> Some WALLET_CONNECT"
    using autoConnect_connected [of env ad WALLET_CONNECT] av by auto
  with keys dom none av show ?thesis
    by (simp add: selectWallet_cases getWalletStates_keys priority_def)
qed

theorem walletconnect_is_never_registered_witness:
  "reachable_adapter (snd (autoConnect ex_env_kaikas_rejects ex_adapter_rejecting)) \<and>
   map fst (wallets (snd (autoConnect ex_env_kaikas_rejects ex_adapter_rejecting))) =
     [KAIKAS, METAMASK] \<and>
   selectWallet ex_env_ok (snd (autoConnect ex_env_kaikas_rejects ex_adapter_rejecting))
       WALLET_CONNECT =
     Inl (new_Error (MSG_UNSUPPORTED_WALLET @ ''walletconnect'')) \<and>
   fst (autoConnect ex_env_ok (snd (autoConnect ex_env_kaikas_rejects ex_adapter_rejecting))) \<noteq>
     Some WALLET_CONNECT"
proof -
  have r: "reachable_adapter (snd (autoConnect ex_env_kaikas_rejects ex_adapter_rejecting))"
    unfolding ex_adapter_rejecting_def
    by (rule adapter_next [OF adapter_new step_autoConnect])
  show ?thesis
    using r walletconnect_is_never_registered [OF r, of ex_env_ok] by simp
qed

end
